theory Spec2Isabelle
  imports Complex_Main
begin

section \<open>elk: quality-gated ensemble lightcurves\<close>

text \<open>
  A shallow embedding of \<^verbatim>\<open>elk/utils.py\<close> and \<^verbatim>\<open>elk/ensemble.py\<close>.
  Python ints are read as \<open>int\<close>. In \<^verbatim>\<open>ensemble.py\<close> Python floats are read as real
  numbers; in \<^verbatim>\<open>utils.py\<close> they are IEEE binary64 numbers, every operation rounded.
  An exception is a value \<open>Inl e\<close>; the pipeline object and the outside world (files,
  directories, the terminal) are passed explicitly and returned updated.
\<close>

subsection \<open>utils.py\<close>

text \<open>
  A finite binary64 number is \<open>m * 2 ^ (e - 52)\<close> with \<open>\<bar>m\<bar> < 2 ^ 53\<close> and
  \<open>- 1022 \<le> e\<close>. \<open>f64 x\<close> is the real \<open>x\<close> rounded to the nearest such number, ties to
  the even mantissa: the result of one IEEE operation whose exact value is \<open>x\<close>. The
  exponent is not bounded above, so an overflow to infinity is not modelled, nor are NaN
  and the division by a zero flux.
\<close>

definition round_even :: "real \<Rightarrow> int" where
  "round_even y =
     (let f = \<lfloor>y\<rfloor>; r = y - of_int f
      in if r < 1 / 2 then f else if 1 / 2 < r then f + 1 else if even f then f else f + 1)"

text \<open>The exponent of the binade of \<open>x > 0\<close>; subnormal numbers share the exponent \<open>- 1022\<close>.\<close>

definition binade :: "real \<Rightarrow> int" where
  "binade x = max \<lfloor>log 2 x\<rfloor> (- 1022)"

definition f64_pos :: "real \<Rightarrow> real" where
  "f64_pos x =
     (if x = 0 then 0
      else of_int (round_even (x / 2 powr (of_int (binade x) - 52))) * 2 powr (of_int (binade x) - 52))"

definition f64 :: "real \<Rightarrow> real" where
  "f64 x = (if x < 0 then - f64_pos (- x) else f64_pos x)"



subsection \<open>Exceptions and values\<close>

datatype error =
    AssertionError
  | TypeError
  | AttributeError
  | IndexError
  | KeyError string
  | ValueError
  | ZeroDivisionError
  | FileNotFoundError
  | FileExistsError
  | OSError
  | EOFError
  | Unmodelled

text \<open>A value of a FITS header card.\<close>

datatype hval = HNone | HBool bool | HInt int | HReal real | HStr string

type_synonym header = "(string \<times> hval) list"

text \<open>A table is its columns, by name; an HDU is the primary header or a binary table.\<close>

type_synonym table = "(string \<times> real list) list"

datatype hdu = PrimaryHDU header | BinTableHDU table

subsection \<open>The outside world\<close>

text \<open>
  What one candidate observation will do when the pipeline touches it: whether its cutout
  downloads, what the adapter's edge test says, the residual stack
  \<^verbatim>\<open>(quality_tpfs - full_model_normalized).flux.value\<close> (one pixel grid per cadence,
  row by row) and the table \<^verbatim>\<open>lc.hdu\<close> of the corrected lightcurve.
  \<^verbatim>\<open>elk/lightcurve.py\<close> is not part of the sources at hand, so these are data, and
  building the adapter and correcting the lightcurve never raise.
\<close>

record candidate =
  cand_downloads :: bool
  cand_near_edge :: bool
  cand_residuals :: "real list list list"
  cand_hdu :: table

datatype lightcurve =
    TESSCutLightcurve candidate
  | SimpleCorrectedLightcurve string nat

datatype msg =
    NoOutputFolder string
  | AskCreateFolder
  | NoSubfolder string
  | AskCreateSubfolder
  | HasObservations "string option" int
  | StartingQualityTests nat
  | FailedDownload
  | FailedNearEdgeTest
  | FailedScatteredLightTest
  | PassedQualityTests nat
  | NotDownloadedWarning

datatype event =
    Print msg
  | Search "string option"
  | ClearCache
  | Download nat "string option"
  | NearEdge nat
  | CorrectLC nat
  | ScatteredLight nat
  | Plot nat
  | SaveFig string nat
  | ReadTable string int
  | WriteTo string
  | ShowFig int

text \<open>
  Paths are compared as they are spelled. \<open>dir_listing\<close> holds the directories that
  exist, each with the names of the plain files in it; \<open>fits_files\<close> holds the
  artifacts written by the pipeline; \<open>stdin\<close> is what the user will answer at the prompts;
  \<open>events\<close> is the trace of what the program did to the outside, oldest first.
  Making a folder or writing a file at a path where nothing exists is taken to succeed
  (no missing parent folder, no permissions).
\<close>

record world =
  fits_files :: "string \<rightharpoonup> hdu list"
  dir_listing :: "string \<rightharpoonup> string list"
  stdin :: "string list"
  events :: "event list"

definition emit :: "event \<Rightarrow> world \<Rightarrow> world" where
  "emit e w = w\<lparr>events := events w @ [e]\<rparr>"

definition emit_if :: "bool \<Rightarrow> event \<Rightarrow> world \<Rightarrow> world" where
  "emit_if b e w = (if b then emit e w else w)"

text \<open>The external libraries, as functions.\<close>

record env =
  unit_to_deg :: "real \<Rightarrow> string \<Rightarrow> error + real"
  unit_to_yr :: "real \<Rightarrow> string \<Rightarrow> error + real"
  search_tesscut :: "string option \<Rightarrow> candidate list"
  lstsq :: "(real \<times> real \<times> real) list \<Rightarrow> real list \<Rightarrow> error + (real \<times> real \<times> real)"
  table_read :: "hdu list \<Rightarrow> int \<Rightarrow> error + table"

subsection \<open>os.path\<close>

definition join2 :: "string \<Rightarrow> string \<Rightarrow> string" where
  "join2 a b =
     (if b \<noteq> [] \<and> hd b = CHR ''/'' then b
      else if a = [] \<or> last a = CHR ''/'' then a @ b
      else a @ ''/'' @ b)"

definition os_path_join :: "string option \<Rightarrow> string list \<Rightarrow> error + string" where
  "os_path_join a ps = (case a of None \<Rightarrow> Inl TypeError | Some s \<Rightarrow> Inr (foldl join2 s ps))"

definition os_path_exists :: "world \<Rightarrow> string \<Rightarrow> bool" where
  "os_path_exists w p = (fits_files w p \<noteq> None \<or> dir_listing w p \<noteq> None)"

definition os_mkdir :: "string \<Rightarrow> world \<Rightarrow> error + world" where
  "os_mkdir p w =
     (if os_path_exists w p then Inl FileExistsError
      else Inr (w\<lparr>dir_listing := (dir_listing w)(p \<mapsto> [])\<rparr>))"

definition endswith :: "string \<Rightarrow> string \<Rightarrow> bool" where
  "endswith s suf = (length suf \<le> length s \<and> drop (length s - length suf) s = suf)"

text \<open>\<^verbatim>\<open>input(prompt)\<close>: shows the prompt and takes the next answer.\<close>

definition input :: "msg \<Rightarrow> world \<Rightarrow> (error + string) \<times> world" where
  "input prompt w =
     (let w1 = emit (Print prompt) w
      in case stdin w1 of
           [] \<Rightarrow> (Inl EOFError, w1)
         | a # rest \<Rightarrow> (Inr a, w1\<lparr>stdin := rest\<rparr>))"

definition says_yes :: "string \<Rightarrow> bool" where
  "says_yes create_it = (create_it = [] \<or> create_it = ''y'' \<or> create_it = ''Y'')"

subsection \<open>The pipeline object\<close>

text \<open>
  The attributes of an \<^verbatim>\<open>EnsembleLC\<close>. \<open>tess_search_results\<close> and
  \<open>sectors_available\<close> do not exist before \<^verbatim>\<open>has_tess_data\<close> (or
  \<^verbatim>\<open>from_fits\<close>) sets them: \<open>None\<close> is the missing attribute.
\<close>

record ensemble =
  save_lcs :: bool
  save_figures :: bool
  lcs :: "lightcurve option list"
  output_path :: "string option"
  radius :: "real option"
  cluster_age :: "real option"
  callable :: "string option"
  cluster_name :: "string option"
  location :: "string option"
  percentile :: int
  cutout_size :: int
  scattered_light_frequency :: int
  n_pca :: int
  verbose :: bool
  no_lk_cache :: bool
  debug :: bool
  n_failed_download :: int
  n_near_edge :: int
  n_scattered_light :: int
  n_good_obs :: int
  tess_search_results :: "candidate list option"
  sectors_available :: "int option"

text \<open>A radius or an age as the caller gives it: nothing, a bare float, or a value with a unit.\<close>

datatype quantity = QNone | QFloat real | QUnit real string

record init_args =
  arg_radius :: quantity
  arg_cluster_age :: quantity
  arg_output_path :: "string option"
  arg_cluster_name :: "string option"
  arg_location :: "string option"
  arg_percentile :: int
  arg_cutout_size :: int
  arg_scattered_light_frequency :: int
  arg_n_pca :: int
  arg_verbose :: bool
  arg_no_lk_cache :: bool
  arg_debug :: bool

definition convert_radius :: "env \<Rightarrow> quantity \<Rightarrow> error + real option" where
  "convert_radius ev q =
     (case q of
        QNone \<Rightarrow> Inr None
      | QFloat r \<Rightarrow> Inr (Some r)
      | QUnit v u \<Rightarrow> map_sum id Some (unit_to_deg ev v u))"

definition convert_age :: "env \<Rightarrow> quantity \<Rightarrow> error + real option" where
  "convert_age ev q =
     (case q of
        QNone \<Rightarrow> Inr None
      | QFloat r \<Rightarrow> Inr (Some r)
      | QUnit v u \<Rightarrow>
          (if u = ''dex'' then Inr (Some v)
           else map_sum id (\<lambda>yr. Some (log 10 yr)) (unit_to_yr ev v u)))"

text \<open>Lines 68-77: the main output folder.\<close>

definition check_output_folder :: "string option \<Rightarrow> world \<Rightarrow> (error + string option) \<times> world" where
  "check_output_folder op w =
     (case op of
        None \<Rightarrow> (Inr None, w)
      | Some p \<Rightarrow>
          (if os_path_exists w p then (Inr op, w)
           else
             (case input AskCreateFolder (emit (Print (NoOutputFolder p)) w) of
                (Inl e, w1) \<Rightarrow> (Inl e, w1)
              | (Inr create_it, w1) \<Rightarrow>
                  (if says_yes create_it then
                     (case os_mkdir p w1 of
                        Inl e \<Rightarrow> (Inl e, w1)
                      | Inr w2 \<Rightarrow> (Inr op, w2))
                   else (Inr None, w1)))))"

text \<open>Lines 79-82: the folder that replaces the lightkurve cache.\<close>

definition make_cache_folder :: "bool \<Rightarrow> string option \<Rightarrow> world \<Rightarrow> (error + unit) \<times> world" where
  "make_cache_folder no_cache op w =
     (if \<not> no_cache then (Inr (), w)
      else
        (case os_path_join op [''cache''] of
           Inl e \<Rightarrow> (Inl e, w)
         | Inr c \<Rightarrow>
             (if os_path_exists w c then (Inr (), w)
              else
                (case os_mkdir c w of
                   Inl e \<Rightarrow> (Inl e, w)
                 | Inr w1 \<Rightarrow>
                     (case os_mkdir (foldl join2 (the op) [''cache'', ''tesscut'']) w1 of
                        Inl e \<Rightarrow> (Inl e, w1)
                      | Inr w2 \<Rightarrow> (Inr (), w2))))))"

text \<open>Lines 87-98, one round of the loop over the two subfolders: the flag it sets.\<close>

definition check_subfolder :: "string \<Rightarrow> world \<Rightarrow> (error + bool) \<times> world" where
  "check_subfolder path w =
     (if os_path_exists w path then (Inr True, w)
      else
        (case input AskCreateSubfolder (emit (Print (NoSubfolder path)) w) of
           (Inl e, w1) \<Rightarrow> (Inl e, w1)
         | (Inr create_it, w1) \<Rightarrow>
             (if says_yes create_it then
                (case os_mkdir path w1 of
                   Inl e \<Rightarrow> (Inl e, w1)
                 | Inr w2 \<Rightarrow> (Inr True, w2))
              else (Inr False, w1))))"

definition check_subfolders :: "string option \<Rightarrow> world \<Rightarrow> (error + bool \<times> bool) \<times> world" where
  "check_subfolders op w =
     (case op of
        None \<Rightarrow> (Inr (False, False), w)
      | Some p \<Rightarrow>
          (case check_subfolder (join2 p ''Corrected_LCs'') w of
             (Inl e, w1) \<Rightarrow> (Inl e, w1)
           | (Inr l, w1) \<Rightarrow>
               (case check_subfolder (join2 p (join2 ''Figures'' ''LCs'')) w1 of
                  (Inl e, w2) \<Rightarrow> (Inl e, w2)
                | (Inr f, w2) \<Rightarrow> (Inr (l, f), w2))))"

definition new_ensemble :: "init_args \<Rightarrow> real option \<Rightarrow> real option \<Rightarrow> string option \<Rightarrow> bool \<times> bool \<Rightarrow> ensemble" where
  "new_ensemble a r age op sv =
     \<lparr> save_lcs = fst sv, save_figures = snd sv,
       lcs = [],
       output_path = op,
       radius = r,
       cluster_age = age,
       callable = (if arg_cluster_name a \<noteq> None then arg_cluster_name a else arg_location a),
       cluster_name = arg_cluster_name a,
       location = arg_location a,
       percentile = arg_percentile a,
       cutout_size = arg_cutout_size a,
       scattered_light_frequency = arg_scattered_light_frequency a,
       n_pca = arg_n_pca a,
       verbose = arg_verbose a,
       no_lk_cache = arg_no_lk_cache a,
       debug = arg_debug a,
       n_failed_download = 0,
       n_near_edge = 0,
       n_scattered_light = 0,
       n_good_obs = 0,
       tess_search_results = None,
       sectors_available = None \<rparr>"

text \<open>\<^verbatim>\<open>EnsembleLC.__init__\<close>.\<close>

definition init :: "env \<Rightarrow> init_args \<Rightarrow> world \<Rightarrow> (error + ensemble) \<times> world" where
  "init ev a w =
     (if \<not> (arg_cluster_name a \<noteq> None \<or> arg_location a \<noteq> None) then (Inl AssertionError, w)
      else
        (case convert_radius ev (arg_radius a) of
           Inl e \<Rightarrow> (Inl e, w)
         | Inr r \<Rightarrow>
        (case convert_age ev (arg_cluster_age a) of
           Inl e \<Rightarrow> (Inl e, w)
         | Inr age \<Rightarrow>
        (case check_output_folder (arg_output_path a) w of
           (Inl e, w1) \<Rightarrow> (Inl e, w1)
         | (Inr op, w1) \<Rightarrow>
        (case make_cache_folder (arg_no_lk_cache a) op w1 of
           (Inl e, w2) \<Rightarrow> (Inl e, w2)
         | (Inr u, w2) \<Rightarrow>
        (case check_subfolders op w2 of
           (Inl e, w3) \<Rightarrow> (Inl e, w3)
         | (Inr sv, w3) \<Rightarrow> (Inr (new_ensemble a r age op sv), w3)))))))"

subsection \<open>Discovery, download and the cache\<close>

definition has_tess_data :: "env \<Rightarrow> world \<times> ensemble \<Rightarrow> bool \<times> world \<times> ensemble" where
  "has_tess_data ev ws =
     (let (w, st) = ws;
          results = search_tesscut ev (callable st);
          n = int (length results);
          st1 = st\<lparr>tess_search_results := Some results, sectors_available := Some n\<rparr>;
          w1 = emit (Search (callable st)) w;
          w2 = emit_if (verbose st) (Print (HasObservations (callable st) n)) w1
      in (0 < n, w2, st1))"

text \<open>
  \<^verbatim>\<open>downloadable\<close>: only \<^verbatim>\<open>lk.search.SearchError\<close> is caught and turned into
  \<open>None\<close>; a missing output path, a missing attribute or an index out of range escape.
\<close>

definition downloadable :: "ensemble \<Rightarrow> nat \<Rightarrow> world \<Rightarrow> (error + candidate option) \<times> world" where
  "downloadable st ind w =
     (case (if no_lk_cache st then map_sum id Some (os_path_join (output_path st) [''cache''])
            else Inr None) of
        Inl e \<Rightarrow> (Inl e, w)
      | Inr download_dir \<Rightarrow>
          (case tess_search_results st of
             None \<Rightarrow> (Inl AttributeError, w)
           | Some results \<Rightarrow>
               (if ind < length results then
                  (let c = results ! ind
                   in (Inr (if cand_downloads c then Some c else None),
                       emit (Download ind download_dir) w))
                else (Inl IndexError, w))))"

definition clear_cache :: "ensemble \<Rightarrow> world \<Rightarrow> (error + unit) \<times> world" where
  "clear_cache st w =
     (case os_path_join (output_path st) [''cache'', ''tesscut''] of
        Inl e \<Rightarrow> (Inl e, w)
      | Inr d \<Rightarrow>
          (case dir_listing w d of
             None \<Rightarrow> (Inl FileNotFoundError, w)
           | Some files \<Rightarrow>
               (Inr (),
                emit ClearCache
                  (w\<lparr>dir_listing :=
                       (dir_listing w)(d \<mapsto> filter (\<lambda>file. \<not> endswith file ''.fits'') files)\<rparr>))))"

subsection \<open>The scattered-light detector\<close>

text \<open>\<^verbatim>\<open>np.arange(0, n, step)\<close> for an integer step.\<close>

definition arange :: "nat \<Rightarrow> int \<Rightarrow> error + nat list" where
  "arange n step =
     (if step = 0 then Inl ZeroDivisionError
      else if step < 0 then Inr []
      else Inr (map (\<lambda>k. k * nat step) [0..<(n + nat step - 1) div nat step]))"

text \<open>
  The flattened grids \<^verbatim>\<open>XX\<close>, \<^verbatim>\<open>YY\<close> of \<^verbatim>\<open>np.meshgrid\<close> and the design
  matrix \<^verbatim>\<open>np.c_[XX, YY, ones]\<close>, one row \<open>(x, y, 1)\<close> per pixel.
\<close>

definition grid_XX :: "int \<Rightarrow> real list" where
  "grid_XX g = concat (replicate (nat g) (map real [0..<nat g]))"

definition grid_YY :: "int \<Rightarrow> real list" where
  "grid_YY g = concat (map (\<lambda>y. replicate (nat g) (real y)) [0..<nat g])"

definition design_matrix :: "int \<Rightarrow> (real \<times> real \<times> real) list" where
  "design_matrix g = zip (grid_XX g) (zip (grid_YY g) (replicate (length (grid_XX g)) 1))"

fun fit_frames ::
  "env \<Rightarrow> (real \<times> real \<times> real) list \<Rightarrow> real list list list \<Rightarrow> nat list
     \<Rightarrow> error + (real \<times> real \<times> real) list" where
  "fit_frames ev A stack [] = Inr []"
| "fit_frames ev A stack (t # ts) =
     (if t < length stack then
        (case lstsq ev A (concat (stack ! t)) of
           Inl e \<Rightarrow> Inl e
         | Inr C \<Rightarrow>
             (case fit_frames ev A stack ts of
                Inl e \<Rightarrow> Inl e
              | Inr Cs \<Rightarrow> Inr (C # Cs)))
      else Inl IndexError)"

text \<open>Python's \<^verbatim>\<open>max\<close> of a sequence: an empty one raises.\<close>

definition py_max :: "real list \<Rightarrow> error + real" where
  "py_max xs = (case xs of [] \<Rightarrow> Inl ValueError | x # rest \<Rightarrow> Inr (fold max rest x))"

definition py_min :: "real list \<Rightarrow> error + real" where
  "py_min xs = (case xs of [] \<Rightarrow> Inl ValueError | x # rest \<Rightarrow> Inr (fold min rest x))"

definition scattered_light :: "env \<Rightarrow> ensemble \<Rightarrow> real list list list \<Rightarrow> error + bool" where
  "scattered_light ev st stack =
     (if debug st then Inr False
      else
        (case arange (length stack) (scattered_light_frequency st) of
           Inl e \<Rightarrow> Inl e
         | Inr time_steps \<Rightarrow>
        (case fit_frames ev (design_matrix (cutout_size st)) stack time_steps of
           Inl e \<Rightarrow> Inl e
         | Inr coefficients_array \<Rightarrow>
        (case py_max (map (\<lambda>(a, b, c). \<bar>a\<bar>) coefficients_array) of
           Inl e \<Rightarrow> Inl e
         | Inr mxc \<Rightarrow>
        (case py_max (map (\<lambda>(a, b, c). \<bar>b\<bar>) coefficients_array) of
           Inl e \<Rightarrow> Inl e
         | Inr myc \<Rightarrow>
        (case py_max (map (\<lambda>(a, b, c). \<bar>c\<bar>) coefficients_array) of
           Inl e \<Rightarrow> Inl e
         | Inr mzc \<Rightarrow> Inr (mzc > 2.5 \<or> (mxc > 0.02 \<and> myc > 0.02))))))))"

subsection \<open>The loop of get\_lcs\<close>

datatype control = Continue | Return | Raise error

text \<open>Lines 235-243: the trace line, the purge of the cache, the download.\<close>

definition download_stage :: "nat \<Rightarrow> world \<times> ensemble \<Rightarrow> (error + candidate option) \<times> world" where
  "download_stage sector_ind ws =
     (let (w, st) = ws;
          w1 = emit_if (verbose st) (Print (StartingQualityTests sector_ind)) w
      in case (if no_lk_cache st then clear_cache st w1 else (Inr (), w1)) of
           (Inl e, w2) \<Rightarrow> (Inl e, w2)
         | (Inr u, w2) \<Rightarrow> downloadable st sector_ind w2)"

text \<open>
  Lines 285-305: the observation is good. Drawing the figure reads the corrected flux of
  the adapter, which is not modelled; the figure is written only with an output path and an
  existing figures folder.
\<close>

definition accept_lc :: "nat \<Rightarrow> lightcurve \<Rightarrow> world \<times> ensemble \<Rightarrow> control \<times> world \<times> ensemble" where
  "accept_lc sector_ind lc ws =
     (let (w, st) = ws;
          w1 = emit_if (verbose st) (Print (PassedQualityTests sector_ind)) w;
          st1 = st\<lparr>n_good_obs := n_good_obs st + 1\<rparr>
      in if sector_ind < length (lcs st1) then
           (let st2 = st1\<lparr>lcs := (lcs st1)[sector_ind := Some lc]\<rparr>;
                w2 = emit (Plot sector_ind) w1;
                w3 = (case output_path st2 of
                        None \<Rightarrow> w2
                      | Some p \<Rightarrow>
                          emit_if (save_figures st2)
                            (SaveFig (foldl join2 p [''Figures'', ''LCs'']) sector_ind) w2)
            in (Continue, w3, st2))
         else (Raise IndexError, w1, st1))"

text \<open>Lines 271-283: the correction, then the scattered-light gate.\<close>

definition scattered_light_stage ::
  "env \<Rightarrow> nat \<Rightarrow> int \<Rightarrow> candidate \<Rightarrow> world \<times> ensemble \<Rightarrow> control \<times> world \<times> ensemble" where
  "scattered_light_stage ev sector_ind n c ws =
     (let (w, st) = ws;
          w1 = emit (CorrectLC sector_ind) w
      in case scattered_light ev st (cand_residuals c) of
           Inl e \<Rightarrow> (Raise e, w1, st)
         | Inr scattered_light_test \<Rightarrow>
             (let w2 = emit (ScatteredLight sector_ind) w1
              in if scattered_light_test \<and> int sector_ind + 1 < n then
                   (Continue, emit_if (verbose st) (Print FailedScatteredLightTest) w2,
                    st\<lparr>n_scattered_light := n_scattered_light st + 1\<rparr>)
                 else if scattered_light_test \<and> int sector_ind + 1 = n then
                   (Return, emit_if (verbose st) (Print FailedScatteredLightTest) w2,
                    st\<lparr>n_scattered_light := n_scattered_light st + 1\<rparr>)
                 else accept_lc sector_ind (TESSCutLightcurve c) (w2, st)))"

text \<open>Lines 255-269: the adapter is built and the edge gate is asked.\<close>

definition near_edge_stage ::
  "env \<Rightarrow> nat \<Rightarrow> int \<Rightarrow> candidate \<Rightarrow> world \<times> ensemble \<Rightarrow> control \<times> world \<times> ensemble" where
  "near_edge_stage ev sector_ind n c ws =
     (let (w, st) = ws;
          near_edge = cand_near_edge c;
          w1 = emit (NearEdge sector_ind) w
      in if near_edge \<and> int sector_ind + 1 < n then
           (Continue, emit_if (verbose st) (Print FailedNearEdgeTest) w1,
            st\<lparr>n_near_edge := n_near_edge st + 1\<rparr>)
         else if near_edge \<and> int sector_ind + 1 = n then
           (Return, emit_if (verbose st) (Print FailedNearEdgeTest) w1,
            st\<lparr>n_near_edge := n_near_edge st + 1\<rparr>)
         else scattered_light_stage ev sector_ind n c (w1, st))"

text \<open>
  One round of the \<^verbatim>\<open>for\<close> loop. The adapter cannot be built from a download that
  returned nothing; inside the loop that branch is never reached, since
  \<open>sector_ind + 1 \<le> sectors_available\<close> there.
\<close>

definition get_lcs_iteration :: "env \<Rightarrow> nat \<Rightarrow> world \<times> ensemble \<Rightarrow> control \<times> world \<times> ensemble" where
  "get_lcs_iteration ev sector_ind ws =
     (let st = snd ws
      in case download_stage sector_ind ws of
           (Inl e, w1) \<Rightarrow> (Raise e, w1, st)
         | (Inr tpfs, w1) \<Rightarrow>
             (case sectors_available st of
                None \<Rightarrow> (Raise AttributeError, w1, st)
              | Some n \<Rightarrow>
                  (if tpfs = None \<and> int sector_ind + 1 < n then
                     (Continue, emit_if (verbose st) (Print FailedDownload) w1,
                      st\<lparr>n_failed_download := n_failed_download st + 1\<rparr>)
                   else if tpfs = None \<and> int sector_ind + 1 = n then
                     (Return, emit_if (verbose st) (Print FailedDownload) w1,
                      st\<lparr>n_failed_download := n_failed_download st + 1\<rparr>)
                   else
                     (case tpfs of
                        None \<Rightarrow> (Raise Unmodelled, w1, st)
                      | Some c \<Rightarrow> near_edge_stage ev sector_ind n c (w1, st)))))"

datatype loop_end = Completed | Returned | Raised error

fun get_lcs_loop :: "env \<Rightarrow> nat list \<Rightarrow> world \<times> ensemble \<Rightarrow> loop_end \<times> world \<times> ensemble" where
  "get_lcs_loop ev [] ws = (Completed, ws)"
| "get_lcs_loop ev (sector_ind # rest) ws =
     (case get_lcs_iteration ev sector_ind ws of
        (Continue, ws') \<Rightarrow> get_lcs_loop ev rest ws'
      | (Return, ws') \<Rightarrow> (Returned, ws')
      | (Raise e, ws') \<Rightarrow> (Raised e, ws'))"

text \<open>Line 307 calls the attribute \<^verbatim>\<open>no_lk_cache\<close>, a bool: a bool is not callable.\<close>

definition call_bool :: "bool \<Rightarrow> error + bool" where
  "call_bool b = Inl TypeError"

definition get_lcs :: "env \<Rightarrow> world \<times> ensemble \<Rightarrow> (error + unit) \<times> world \<times> ensemble" where
  "get_lcs ev ws =
     (let (w, st) = ws
      in case sectors_available st of
           None \<Rightarrow> (Inl AttributeError, w, st)
         | Some n \<Rightarrow>
             (case get_lcs_loop ev [0..<nat n] (w, st\<lparr>lcs := replicate (nat n) None\<rparr>) of
                (Raised e, ws') \<Rightarrow> (Inl e, ws')
              | (Returned, ws') \<Rightarrow> (Inr (), ws')
              | (Completed, w', st') \<Rightarrow>
                  (case call_bool (no_lk_cache st') of
                     Inl e \<Rightarrow> (Inl e, w', st')
                   | Inr b \<Rightarrow>
                       (if b then
                          (case clear_cache st' w' of (r, w'') \<Rightarrow> (r, w'', st'))
                        else (Inr (), w', st')))))"

subsection \<open>Persistence\<close>

text \<open>\<^verbatim>\<open>str(self.callable)\<close> and \<^verbatim>\<open>self.callable + '...'\<close>.\<close>

definition str_opt :: "string option \<Rightarrow> string" where
  "str_opt c = (case c of None \<Rightarrow> ''None'' | Some s \<Rightarrow> s)"

definition concat_str :: "string option \<Rightarrow> string \<Rightarrow> error + string" where
  "concat_str c s = (case c of None \<Rightarrow> Inl TypeError | Some t \<Rightarrow> Inr (t @ s))"

definition LC_PATH :: "ensemble \<Rightarrow> error + string" where
  "LC_PATH st =
     os_path_join (output_path st) [''Corrected_LCs/'', str_opt (callable st) @ ''output_table.fits'']"

definition previously_downloaded :: "ensemble \<Rightarrow> world \<Rightarrow> error + bool" where
  "previously_downloaded st w = map_sum id (os_path_exists w) (LC_PATH st)"

definition fits_open :: "world \<Rightarrow> string \<Rightarrow> error + hdu list" where
  "fits_open w p = (case fits_files w p of None \<Rightarrow> Inl FileNotFoundError | Some hdul \<Rightarrow> Inr hdul)"

text \<open>\<^verbatim>\<open>Table.read(path, hdu=k)\<close>: the file is opened and the library picks the table.\<close>

definition Table_read :: "env \<Rightarrow> string \<Rightarrow> int \<Rightarrow> world \<Rightarrow> (error + table) \<times> world" where
  "Table_read ev p k w =
     (let w1 = emit (ReadTable p k) w
      in case fits_open w1 p of
           Inl e \<Rightarrow> (Inl e, w1)
         | Inr hdul \<Rightarrow> (table_read ev hdul k, w1))"

text \<open>\<^verbatim>\<open>hdul.writeto(path)\<close> does not overwrite.\<close>

definition writeto :: "string \<Rightarrow> hdu list \<Rightarrow> world \<Rightarrow> error + world" where
  "writeto p hdul w =
     (if os_path_exists w p then Inl OSError
      else Inr (emit (WriteTo p) (w\<lparr>fits_files := (fits_files w)(p \<mapsto> hdul)\<rparr>)))"

fun header_set :: "string \<Rightarrow> hval \<Rightarrow> header \<Rightarrow> header" where
  "header_set k v [] = [(k, v)]"
| "header_set k v ((k', v') # h) = (if k' = k then (k, v) # h else (k', v') # header_set k v h)"

definition header_get :: "header \<Rightarrow> string \<Rightarrow> error + hval" where
  "header_get h k = (case map_of h k of None \<Rightarrow> Inl (KeyError k) | Some v \<Rightarrow> Inr v)"

definition hstr :: "string option \<Rightarrow> hval" where
  "hstr s = (case s of None \<Rightarrow> HNone | Some t \<Rightarrow> HStr t)"

definition hreal :: "real option \<Rightarrow> hval" where
  "hreal r = (case r of None \<Rightarrow> HNone | Some x \<Rightarrow> HReal x)"

text \<open>Lines 334-344: the header, for a known number \<open>n\<close> of candidates.\<close>

definition summary_header :: "ensemble \<Rightarrow> int \<Rightarrow> header" where
  "summary_header st n =
     (header_set ''n_scattered_light'' (HInt (n_scattered_light st))
     (header_set ''n_near_edge'' (HInt (n_near_edge st))
     (header_set ''n_failed_download'' (HInt (n_failed_download st))
     (header_set ''n_good_obs'' (HInt (n_good_obs st))
     (header_set ''n_obs_available'' (HInt n)
     (header_set ''Has_TESS_Data'' (HBool (n > 0))
     (header_set ''Log Age'' (hreal (cluster_age st))
     (header_set ''Radius [deg]'' (hreal (radius st))
     (header_set ''Location'' (hstr (location st))
     (header_set ''Name'' (hstr (cluster_name st)) []))))))))))"

text \<open>
  Modelled from the spec: \<^verbatim>\<open>lc.hdu\<close> of \<^verbatim>\<open>elk/lightcurve.py\<close>, which is
  missing. The adapter exposes "a serializable table/record representation", and the
  reloaded wrapper stands for the record stored at its position of its file.
\<close>

definition lc_hdu :: "world \<Rightarrow> lightcurve \<Rightarrow> error + hdu" where
  "lc_hdu w lc =
     (case lc of
        TESSCutLightcurve c \<Rightarrow> Inr (BinTableHDU (cand_hdu c))
      | SimpleCorrectedLightcurve p i \<Rightarrow>
          (case fits_open w p of
             Inl e \<Rightarrow> Inl e
           | Inr hdul \<Rightarrow> (if i < length hdul then Inr (hdul ! i) else Inl IndexError)))"

fun lc_hdus :: "world \<Rightarrow> lightcurve option list \<Rightarrow> error + hdu list" where
  "lc_hdus w [] = Inr []"
| "lc_hdus w (None # rest) = lc_hdus w rest"
| "lc_hdus w (Some lc # rest) =
     (case lc_hdu w lc of
        Inl e \<Rightarrow> Inl e
      | Inr h \<Rightarrow> (case lc_hdus w rest of Inl e \<Rightarrow> Inl e | Inr hs \<Rightarrow> Inr (h # hs)))"

text \<open>Lines 334-348: header, HDU list, and the write.\<close>

definition write_summary :: "string \<Rightarrow> world \<times> ensemble \<Rightarrow> (error + table option) \<times> world \<times> ensemble" where
  "write_summary path ws =
     (let (w, st) = ws
      in case sectors_available st of
           None \<Rightarrow> (Inl AttributeError, w, st)
         | Some n \<Rightarrow>
             (case lc_hdus w (lcs st) of
                Inl e \<Rightarrow> (Inl e, w, st)
              | Inr hs \<Rightarrow>
                  (if output_path st \<noteq> None then
                     (case writeto path (PrimaryHDU (summary_header st n) # hs) w of
                        Inl e \<Rightarrow> (Inl e, w, st)
                      | Inr w1 \<Rightarrow> (Inr None, w1, st))
                   else (Inr None, w, st))))"

text \<open>Lines 325-332: the pipeline runs when the search found something.\<close>

definition run_pipeline :: "env \<Rightarrow> world \<times> ensemble \<Rightarrow> (error + unit) \<times> world \<times> ensemble" where
  "run_pipeline ev ws =
     (case has_tess_data ev ws of
        (False, ws1) \<Rightarrow> (Inr (), ws1)
      | (True, ws1) \<Rightarrow>
          (case get_lcs ev ws1 of
             (Inl e, ws2) \<Rightarrow> (Inl e, ws2)
           | (Inr u, w2, st2) \<Rightarrow>
               (if no_lk_cache st2 then
                  (case clear_cache st2 w2 of (r, w3) \<Rightarrow> (r, w3, st2))
                else (Inr (), w2, st2))))"

definition lightcurves_summary_file ::
  "env \<Rightarrow> world \<times> ensemble \<Rightarrow> (error + table option) \<times> world \<times> ensemble" where
  "lightcurves_summary_file ev ws =
     (let (w, st) = ws
      in case LC_PATH st of
           Inl e \<Rightarrow> (Inl e, w, st)
         | Inr path \<Rightarrow>
             (case previously_downloaded st w of
                Inl e \<Rightarrow> (Inl e, w, st)
              | Inr True \<Rightarrow>
                  (case Table_read ev path 1 w of
                     (Inl e, w1) \<Rightarrow> (Inl e, w1, st)
                   | (Inr output_table, w1) \<Rightarrow> (Inr (Some output_table), w1, st))
              | Inr False \<Rightarrow>
                  (case run_pipeline ev (w, st) of
                     (Inl e, ws1) \<Rightarrow> (Inl e, ws1)
                   | (Inr u, ws1) \<Rightarrow> write_summary path ws1)))"

subsection \<open>Reload and access\<close>

text \<open>
  The attributes are typed here, so a header value is stored only when it has the type
  that \<open>summary_header\<close> writes under that key (or is absent where that may be);
  Python would keep any value, the model stops with \<open>Unmodelled\<close>.
\<close>

definition as_str :: "hval \<Rightarrow> error + string option" where
  "as_str v = (case v of HNone \<Rightarrow> Inr None | HStr s \<Rightarrow> Inr (Some s) | _ \<Rightarrow> Inl Unmodelled)"

definition as_real :: "hval \<Rightarrow> error + real option" where
  "as_real v =
     (case v of HNone \<Rightarrow> Inr None | HReal r \<Rightarrow> Inr (Some r) | HInt i \<Rightarrow> Inr (Some (real_of_int i))
      | _ \<Rightarrow> Inl Unmodelled)"

definition as_int :: "hval \<Rightarrow> error + int" where
  "as_int v = (case v of HInt i \<Rightarrow> Inr i | _ \<Rightarrow> Inl Unmodelled)"

definition hdu_header :: "hdu \<Rightarrow> header" where
  "hdu_header h = (case h of PrimaryHDU hdr \<Rightarrow> hdr | BinTableHDU t \<Rightarrow> [])"

definition bind :: "error + 'a \<Rightarrow> ('a \<Rightarrow> error + 'b) \<Rightarrow> error + 'b" where
  "bind m f = (case m of Inl e \<Rightarrow> Inl e | Inr x \<Rightarrow> f x)"

text \<open>Lines 398-411, on the opened HDU list.\<close>

definition load_header :: "string \<Rightarrow> hdu list \<Rightarrow> ensemble \<Rightarrow> error + ensemble" where
  "load_header filepath hdul new_ecl =
     (case hdul of
        [] \<Rightarrow> Inl IndexError
      | details # rest \<Rightarrow>
          (let h = hdu_header details in
           bind (bind (header_get h ''Name'') as_str) (\<lambda>name.
           bind (bind (header_get h ''Location'') as_str) (\<lambda>loc.
           bind (bind (header_get h ''Radius [deg]'') as_real) (\<lambda>r.
           bind (bind (header_get h ''Log_Age'') as_real) (\<lambda>age.
           bind (bind (header_get h ''n_obs_available'') as_int) (\<lambda>n.
           bind (bind (header_get h ''n_good_obs'') as_int) (\<lambda>good.
           bind (bind (header_get h ''n_failed_download'') as_int) (\<lambda>failed.
           bind (bind (header_get h ''n_near_edge'') as_int) (\<lambda>edge.
           bind (bind (header_get h ''n_scattered_light'') as_int) (\<lambda>scattered.
           Inr (new_ecl\<lparr>
             cluster_name := name,
             location := loc,
             callable := (if name \<noteq> None then name else loc),
             radius := r,
             cluster_age := age,
             sectors_available := Some n,
             n_good_obs := good,
             n_failed_download := failed,
             n_near_edge := edge,
             n_scattered_light := scattered,
             lcs := map (\<lambda>hdu_ind. Some (SimpleCorrectedLightcurve filepath hdu_ind))
                      [1..<length hdul]\<rparr>))))))))))))"

text \<open>
  \<^verbatim>\<open>from_fits(filepath, **kwargs)\<close>: \<open>kwargs\<close> are the constructor's other arguments;
  the four that \<^verbatim>\<open>from_fits\<close> passes itself are overridden.
\<close>

definition from_fits :: "env \<Rightarrow> string \<Rightarrow> init_args \<Rightarrow> world \<Rightarrow> (error + ensemble) \<times> world" where
  "from_fits ev filepath kwargs w =
     (case init ev (kwargs\<lparr>arg_cluster_name := Some [], arg_radius := QNone,
                            arg_cluster_age := QNone, arg_output_path := None\<rparr>) w of
        (Inl e, w1) \<Rightarrow> (Inl e, w1)
      | (Inr new_ecl, w1) \<Rightarrow>
          (case fits_open w1 filepath of
             Inl e \<Rightarrow> (Inl e, w1)
           | Inr hdul \<Rightarrow> (load_header filepath hdul new_ecl, w1)))"

definition column :: "table \<Rightarrow> string \<Rightarrow> error + real list" where
  "column t name = (case map_of t name of None \<Rightarrow> Inl (KeyError name) | Some xs \<Rightarrow> Inr xs)"

text \<open>
  The truth value of an array of booleans, as \<^verbatim>\<open>if\<close> takes it: the element of a
  one-element array, false for an empty one, an error otherwise.
\<close>

definition array_truth :: "bool list \<Rightarrow> error + bool" where
  "array_truth bs = (case bs of [] \<Rightarrow> Inr False | [b] \<Rightarrow> Inr b | _ \<Rightarrow> Inl ValueError)"

text \<open>\<^verbatim>\<open>output_table['n_good_obs'] == 1\<close>, as a condition.\<close>

definition n_good_obs_is_one :: "table \<Rightarrow> error + bool" where
  "n_good_obs_is_one output_table =
     bind (column output_table ''n_good_obs'') (\<lambda>xs. array_truth (map (\<lambda>x. x = 1) xs))"

datatype figure = Figure int

text \<open>Lines 380-390: what drawing the figure needs of the table.\<close>

definition draw_figure :: "int \<Rightarrow> table \<Rightarrow> error + figure" where
  "draw_figure observation light_curve_table =
     bind (column light_curve_table ''flux'') (\<lambda>flux.
     bind (py_max flux) (\<lambda>mx.
     bind (py_min flux) (\<lambda>mn.
     bind (column light_curve_table ''time'') (\<lambda>time.
       if time = [] then Inl IndexError else Inr (Figure observation)))))"

definition access_lightcurve ::
  "env \<Rightarrow> int \<Rightarrow> world \<times> ensemble \<Rightarrow> (error + figure option \<times> table option) \<times> world" where
  "access_lightcurve ev observation ws =
     (let (w, st) = ws
      in case bind (concat_str (callable st) ''output_table.fits'')
                (\<lambda>name. os_path_join (output_path st) [''Corrected_LCs'', name]) of
           Inl e \<Rightarrow> (Inl e, w)
         | Inr path \<Rightarrow>
             (if \<not> os_path_exists w path then
                (Inr (None, None), emit (Print NotDownloadedWarning) w)
              else
                (case Table_read ev path 1 w of
                   (Inl e, w1) \<Rightarrow> (Inl e, w1)
                 | (Inr output_table, w1) \<Rightarrow>
                     (case n_good_obs_is_one output_table of
                        Inl e \<Rightarrow> (Inl e, w1)
                      | Inr one \<Rightarrow>
                          (case Table_read ev path (if one then 2 else observation + 2) w1 of
                             (Inl e, w2) \<Rightarrow> (Inl e, w2)
                           | (Inr light_curve_table, w2) \<Rightarrow>
                               (case draw_figure observation light_curve_table of
                                  Inl e \<Rightarrow> (Inl e, w2)
                                | Inr fig \<Rightarrow>
                                    (Inr (Some fig, Some light_curve_table),
                                     emit (ShowFig observation) w2)))))))"

subsection \<open>What a round may change\<close>

text \<open>
  The four counters of the object, the attributes that the loop only reads, and the four
  ways of adding one to a single counter.
\<close>

definition counters :: "ensemble \<Rightarrow> int \<times> int \<times> int \<times> int" where
  "counters st = (n_good_obs st, n_failed_download st, n_near_edge st, n_scattered_light st)"

definition settings :: "ensemble \<Rightarrow> int option \<times> string option \<times> candidate list option \<times> bool \<times> string option" where
  "settings st = (sectors_available st, output_path st, tess_search_results st, no_lk_cache st, callable st)"

definition one_more :: "int \<times> int \<times> int \<times> int \<Rightarrow> (int \<times> int \<times> int \<times> int) list" where
  "one_more k = (case k of (g, f, e, s) \<Rightarrow> [(g + 1, f, e, s), (g, f + 1, e, s), (g, f, e + 1, s), (g, f, e, s + 1)])"

subsection \<open>Concrete inputs\<close>

text \<open>
  Inputs on which the definitions are run below: a least-squares solver (the normal
  equations of the three-column system, by Cramer's rule; a rank-deficient system is left
  out), a reader that takes exactly the HDU asked for, four candidates on a 2 x 2 cutout,
  and a pipeline whose output folders exist.
\<close>

definition plane_fit :: "(real \<times> real \<times> real) list \<Rightarrow> real list \<Rightarrow> error + (real \<times> real \<times> real)" where
  "plane_fit A d =
     (if length A \<noteq> length d then Inl ValueError
      else
        (let sxx = sum_list (map (\<lambda>(x, y, u). x * x) A);
             sxy = sum_list (map (\<lambda>(x, y, u). x * y) A);
             sxu = sum_list (map (\<lambda>(x, y, u). x * u) A);
             syy = sum_list (map (\<lambda>(x, y, u). y * y) A);
             syu = sum_list (map (\<lambda>(x, y, u). y * u) A);
             suu = sum_list (map (\<lambda>(x, y, u). u * u) A);
             sxz = sum_list (map (\<lambda>((x, y, u), z). x * z) (zip A d));
             syz = sum_list (map (\<lambda>((x, y, u), z). y * z) (zip A d));
             suz = sum_list (map (\<lambda>((x, y, u), z). u * z) (zip A d));
             det = sxx * (syy * suu - syu * syu) - sxy * (sxy * suu - syu * sxu)
                     + sxu * (sxy * syu - syy * sxu)
         in if det = 0 then Inl Unmodelled
            else Inr ((sxz * (syy * suu - syu * syu) - sxy * (syz * suu - syu * suz)
                         + sxu * (syz * syu - syy * suz)) / det,
                      (sxx * (syz * suu - syu * suz) - sxz * (sxy * suu - syu * sxu)
                         + sxu * (sxy * suz - syz * sxu)) / det,
                      (sxx * (syy * suz - syz * syu) - sxy * (sxy * suz - syz * sxu)
                         + sxz * (sxy * syu - syy * sxu)) / det)))"

definition strict_table_read :: "hdu list \<Rightarrow> int \<Rightarrow> error + table" where
  "strict_table_read hdul k =
     (if 0 \<le> k \<and> nat k < length hdul then
        (case hdul ! nat k of BinTableHDU t \<Rightarrow> Inr t | PrimaryHDU h \<Rightarrow> Inl ValueError)
      else Inl ValueError)"

definition demo_env :: "candidate list \<Rightarrow> env" where
  "demo_env cands =
     \<lparr> unit_to_deg = (\<lambda>v u. if u = ''deg'' then Inr v else Inl Unmodelled),
       unit_to_yr = (\<lambda>v u. if u = ''yr'' then Inr v else Inl Unmodelled),
       search_tesscut = (\<lambda>c. cands),
       lstsq = plane_fit,
       table_read = strict_table_read \<rparr>"

definition flat_frame :: "real \<Rightarrow> real list list" where
  "flat_frame v = [[v, v], [v, v]]"

definition good_cand :: candidate where
  "good_cand = \<lparr> cand_downloads = True, cand_near_edge = False,
                 cand_residuals = [flat_frame 0],
                 cand_hdu = [(''time'', [0, 1]), (''flux'', [1, 2]), (''flux_err'', [0, 0])] \<rparr>"

definition lost_cand :: candidate where
  "lost_cand = good_cand\<lparr>cand_downloads := False\<rparr>"

definition edge_cand :: candidate where
  "edge_cand = good_cand\<lparr>cand_near_edge := True\<rparr>"

definition bright_cand :: candidate where
  "bright_cand = good_cand\<lparr>cand_residuals := [flat_frame 3]\<rparr>"

definition demo_args :: init_args where
  "demo_args =
     \<lparr> arg_radius = QFloat 0.1, arg_cluster_age = QFloat 8,
       arg_output_path = Some ''out'', arg_cluster_name = Some ''NGC'', arg_location = None,
       arg_percentile = 80, arg_cutout_size = 2, arg_scattered_light_frequency = 5,
       arg_n_pca = 6, arg_verbose = False, arg_no_lk_cache = False, arg_debug = False \<rparr>"

definition demo_world :: world where
  "demo_world =
     \<lparr> fits_files = Map.empty,
       dir_listing = [''out'' \<mapsto> [], ''out/Corrected_LCs'' \<mapsto> [], ''out/Figures/LCs'' \<mapsto> []],
       stdin = [], events = [] \<rparr>"

definition demo_state :: ensemble where
  "demo_state = new_ensemble demo_args (Some 0.1) (Some 8) (Some ''out'') (True, True)"

definition searched :: "candidate list \<Rightarrow> ensemble" where
  "searched cands =
     demo_state\<lparr>tess_search_results := Some cands, sectors_available := Some (int (length cands))\<rparr>"

text \<open>
  A world whose artifact has the layout that \<^verbatim>\<open>access_lightcurve\<close> reads: a table
  with a column \<^verbatim>\<open>n_good_obs\<close> at position 1 and records from position 2 on. And a
  residual stack of six frames of constant value.
\<close>

definition summary_layout :: "real \<Rightarrow> hdu list" where
  "summary_layout k =
     [PrimaryHDU [],
      BinTableHDU [(''n_good_obs'', [k])],
      BinTableHDU [(''time'', [0, 1]), (''flux'', [1, 2])],
      BinTableHDU [(''time'', [0, 1]), (''flux'', [3, 4])]]"

definition summary_world :: "real \<Rightarrow> world" where
  "summary_world k =
     demo_world\<lparr>fits_files := [''out/Corrected_LCs/NGCoutput_table.fits'' \<mapsto> summary_layout k]\<rparr>"

definition demo_stack :: "real list list list" where
  "demo_stack = map flat_frame [1, 9, 9, 9, 9, 3]"

text \<open>
  The object as the concrete runs have it: \<open>cs\<close> found by the search, one slot per
  candidate, quiet, cache kept, figures saved under \<^verbatim>\<open>out\<close>.
\<close>

definition plain_pipeline :: "candidate list \<Rightarrow> ensemble \<Rightarrow> bool" where
  "plain_pipeline cs st \<longleftrightarrow>
     tess_search_results st = Some cs \<and> sectors_available st = Some (int (length cs)) \<and>
     length (lcs st) = length cs \<and>
     verbose st = False \<and> no_lk_cache st = False \<and> debug st = False \<and>
     cutout_size st = 2 \<and> scattered_light_frequency st = 5 \<and>
     output_path st = Some ''out'' \<and> save_figures st = True"

section \<open>Theorems\<close>

text \<open>
  C9. Constructing the pipeline object with neither a cluster name nor a location fails
  at once, whatever the other arguments, the libraries and the outside world are: the
  result is the assertion's error and the world is untouched (no prompt printed, no folder
  made, no answer consumed).
\<close>

theorem init_rejects_missing_identifier:
  "init ev (a\<lparr>arg_cluster_name := None, arg_location := None\<rparr>) w = (Inl AssertionError, w)"
  by (simp add: init_def)

theorem init_rejects_missing_identifier_witness:
  "init (demo_env []) (demo_args\<lparr>arg_cluster_name := None, arg_location := None\<rparr>) demo_world
     = (Inl AssertionError, demo_world)"
  using init_rejects_missing_identifier [of "demo_env []" demo_args demo_world] by simp

subsection \<open>Rounding to binary64\<close>





















lemma f64_0 [simp]: "f64 0 = 0"
  by (simp add: f64_def f64_pos_def)









subsection \<open>The conversion of a flux\<close>









subsection \<open>Runs on the concrete inputs\<close>

lemma init_demo: "init (demo_env cs) demo_args demo_world = (Inr demo_state, demo_world)"
  by (simp add: init_def demo_args_def demo_world_def demo_state_def convert_radius_def convert_age_def
      check_output_folder_def os_path_exists_def make_cache_folder_def check_subfolders_def
      check_subfolder_def join2_def)

lemma design2: "design_matrix 2 = [(0,0,1),(1,0,1),(0,1,1),(1,1,1)]"
  by (simp add: design_matrix_def grid_XX_def grid_YY_def numeral_2_eq_2 upt_rec)

lemma fit_flat: "plane_fit (design_matrix 2) (concat (flat_frame v)) = Inr (0, 0, v)"
  by (simp add: design2 plane_fit_def flat_frame_def Let_def) 

lemma sl_good: "scattered_light (demo_env cs) (searched cs') (cand_residuals good_cand) = Inr False"
  by (simp add: scattered_light_def searched_def demo_state_def new_ensemble_def demo_args_def
      good_cand_def arange_def demo_env_def fit_flat py_max_def)

lemma sl_bright: "scattered_light (demo_env cs) (searched cs') (cand_residuals bright_cand) = Inr True"
  by (simp add: scattered_light_def searched_def demo_state_def new_ensemble_def demo_args_def
      good_cand_def bright_cand_def arange_def demo_env_def fit_flat py_max_def)

lemma stage_demo:
  "i < length cs \<Longrightarrow> download_stage i (demo_world, searched cs) =
     (Inr (if cand_downloads (cs ! i) then Some (cs ! i) else None), emit (Download i None) demo_world)"
  by (simp add: download_stage_def searched_def demo_state_def new_ensemble_def demo_args_def
      emit_if_def downloadable_def)

lemma searched_fields:
  "sectors_available (searched cs) = Some (int (length cs))" "verbose (searched cs) = False"
  by (simp_all add: searched_def demo_state_def new_ensemble_def demo_args_def)

subsection \<open>The gates of one round\<close>

lemma upt_head: "i < m \<Longrightarrow> [i..<m] = i # [Suc i..<m]"
  by (simp add: upt_conv_Cons)

lemma iteration_download_fails:
  assumes "sectors_available st = Some n" "int i < n" "download_stage i (w, st) = (Inr None, w1)"
  shows "get_lcs_iteration ev i (w, st) =
           (if int i + 1 < n then Continue else Return,
            emit_if (verbose st) (Print FailedDownload) w1,
            st\<lparr>n_failed_download := n_failed_download st + 1\<rparr>)"
  using assms by (auto simp: get_lcs_iteration_def)

lemma iteration_near_edge_fails:
  assumes "sectors_available st = Some n" "int i < n"
    "download_stage i (w, st) = (Inr (Some c), w1)" "cand_near_edge c"
  shows "get_lcs_iteration ev i (w, st) =
           (if int i + 1 < n then Continue else Return,
            emit_if (verbose st) (Print FailedNearEdgeTest) (emit (NearEdge i) w1),
            st\<lparr>n_near_edge := n_near_edge st + 1\<rparr>)"
  using assms by (auto simp: get_lcs_iteration_def near_edge_stage_def)

lemma iteration_scattered_light_fails:
  assumes "sectors_available st = Some n" "int i < n"
    "download_stage i (w, st) = (Inr (Some c), w1)" "\<not> cand_near_edge c"
    "scattered_light ev st (cand_residuals c) = Inr True"
  shows "get_lcs_iteration ev i (w, st) =
           (if int i + 1 < n then Continue else Return,
            emit_if (verbose st) (Print FailedScatteredLightTest)
              (emit (ScatteredLight i) (emit (CorrectLC i) (emit (NearEdge i) w1))),
            st\<lparr>n_scattered_light := n_scattered_light st + 1\<rparr>)"
  using assms by (auto simp: get_lcs_iteration_def near_edge_stage_def scattered_light_stage_def)

lemma loop_after_failure:
  assumes "int i < n"
    "get_lcs_iteration ev i ws = (if int i + 1 < n then Continue else Return, ws')"
  shows "get_lcs_loop ev [i..<nat n] ws =
           (if int i + 1 < n then get_lcs_loop ev [Suc i..<nat n] ws' else (Returned, ws'))"
proof -
  have "i < nat n" using assms(1) by linarith
  then have "[i..<nat n] = i # [Suc i..<nat n]" by (rule upt_head)
  then show ?thesis using assms(2) by simp
qed

subsection \<open>Counters along the loop\<close>

lemma accept_lc_frame:
  assumes "accept_lc i lc (w, st) = (c, w', st')"
  shows "settings st' = settings st \<and> counters st' \<in> set (counters st # one_more (counters st))"
proof (cases "i < length (lcs st)")
  case True
  then have "st' = st\<lparr>n_good_obs := n_good_obs st + 1, lcs := (lcs st)[i := Some lc]\<rparr>"
    using assms by (simp add: accept_lc_def Let_def)
  then show ?thesis by (simp add: settings_def counters_def one_more_def)
next
  case False
  then have "st' = st\<lparr>n_good_obs := n_good_obs st + 1\<rparr>"
    using assms by (simp add: accept_lc_def Let_def)
  then show ?thesis by (simp add: settings_def counters_def one_more_def)
qed

lemma scattered_light_stage_frame:
  assumes "scattered_light_stage ev i n cd (w, st) = (c, w', st')"
  shows "settings st' = settings st \<and> counters st' \<in> set (counters st # one_more (counters st))"
proof (cases "scattered_light ev st (cand_residuals cd)")
  case (Inl e)
  then have "st' = st" using assms
    by (simp add: scattered_light_stage_def Let_def)
  then show ?thesis by simp
next
  case (Inr b)
  consider (skip) "b" "int i + 1 < n" | (last) "b" "\<not> int i + 1 < n" "int i + 1 = n"
    | (good) "\<not> (b \<and> int i + 1 < n)" "\<not> (b \<and> int i + 1 = n)"
    by blast
  then show ?thesis
  proof cases
    case skip
    then have "st' = st\<lparr>n_scattered_light := n_scattered_light st + 1\<rparr>"
      using assms Inr by (simp add: scattered_light_stage_def Let_def)
    then show ?thesis by (simp add: settings_def counters_def one_more_def)
  next
    case last
    then have "st' = st\<lparr>n_scattered_light := n_scattered_light st + 1\<rparr>"
      using assms Inr by (simp add: scattered_light_stage_def Let_def)
    then show ?thesis by (simp add: settings_def counters_def one_more_def)
  next
    case good
    then have "accept_lc i (TESSCutLightcurve cd)
                 (emit (ScatteredLight i) (emit (CorrectLC i) w), st) = (c, w', st')"
      using assms Inr by (cases b) (simp_all add: scattered_light_stage_def Let_def)
    then show ?thesis by (rule accept_lc_frame)
  qed
qed

lemma near_edge_stage_frame:
  assumes "near_edge_stage ev i n cd (w, st) = (c, w', st')"
  shows "settings st' = settings st \<and> counters st' \<in> set (counters st # one_more (counters st))"
proof -
  consider (skip) "cand_near_edge cd" "int i + 1 < n"
    | (last) "cand_near_edge cd" "\<not> int i + 1 < n" "int i + 1 = n"
    | (pass) "\<not> (cand_near_edge cd \<and> int i + 1 < n)" "\<not> (cand_near_edge cd \<and> int i + 1 = n)"
    by blast
  then show ?thesis
  proof cases
    case skip
    then have "st' = st\<lparr>n_near_edge := n_near_edge st + 1\<rparr>"
      using assms by (simp add: near_edge_stage_def Let_def)
    then show ?thesis by (simp add: settings_def counters_def one_more_def)
  next
    case last
    then have "st' = st\<lparr>n_near_edge := n_near_edge st + 1\<rparr>"
      using assms by (simp add: near_edge_stage_def Let_def)
    then show ?thesis by (simp add: settings_def counters_def one_more_def)
  next
    case pass
    then have "scattered_light_stage ev i n cd (emit (NearEdge i) w, st) = (c, w', st')"
      using assms by (cases "cand_near_edge cd") (simp_all add: near_edge_stage_def Let_def)
    then show ?thesis by (rule scattered_light_stage_frame)
  qed
qed

lemma iteration_frame:
  assumes "get_lcs_iteration ev i (w, st) = (c, w', st')"
  shows "settings st' = settings st \<and> counters st' \<in> set (counters st # one_more (counters st))"
proof (cases "download_stage i (w, st)")
  case (Pair r w1)
  show ?thesis
  proof (cases r)
    case (Inl e)
    then have "st' = st" using assms Pair by (simp add: get_lcs_iteration_def)
    then show ?thesis by simp
  next
    case (Inr tpfs)
    show ?thesis
    proof (cases "sectors_available st")
      case None
      then have "st' = st" using assms Pair Inr by (simp add: get_lcs_iteration_def)
      then show ?thesis by simp
    next
      case (Some n)
      note n = this
      show ?thesis
      proof (cases tpfs)
        case None
        consider (skip) "int i + 1 < n" | (last) "\<not> int i + 1 < n" "int i + 1 = n"
          | (off) "\<not> int i + 1 < n" "\<not> int i + 1 = n"
          by blast
        then show ?thesis
        proof cases
          case skip
          then have "st' = st\<lparr>n_failed_download := n_failed_download st + 1\<rparr>"
            using assms Pair Inr n None by (simp add: get_lcs_iteration_def)
          then show ?thesis by (simp add: settings_def counters_def one_more_def)
        next
          case last
          then have "st' = st\<lparr>n_failed_download := n_failed_download st + 1\<rparr>"
            using assms Pair Inr n None by (simp add: get_lcs_iteration_def)
          then show ?thesis by (simp add: settings_def counters_def one_more_def)
        next
          case off
          then have "st' = st"
            using assms Pair Inr n None by (simp add: get_lcs_iteration_def)
          then show ?thesis by simp
        qed
      next
        case (Some cd)
        then have "near_edge_stage ev i n cd (w1, st) = (c, w', st')"
          using assms Pair Inr n by (simp add: get_lcs_iteration_def)
        then show ?thesis by (rule near_edge_stage_frame)
      qed
    qed
  qed
qed

lemma loop_frame:
  "get_lcs_loop ev js (w, st) = (e, w', st') \<Longrightarrow>
     settings st' = settings st \<and>
     (case (counters st, counters st') of
        ((g, f, ed, s), (g', f', ed', s')) \<Rightarrow>
          g \<le> g' \<and> f \<le> f' \<and> ed \<le> ed' \<and> s \<le> s' \<and>
          g' + f' + ed' + s' \<le> g + f + ed + s + int (length js))"
proof (induction js arbitrary: w st)
  case Nil
  then show ?case by (simp add: counters_def)
next
  case (Cons j js)
  obtain c w1 st1 where it: "get_lcs_iteration ev j (w, st) = (c, w1, st1)"
    by (metis prod_cases3)
  from iteration_frame [OF it]
  have f1: "settings st1 = settings st"
    and c1: "counters st1 \<in> set (counters st # one_more (counters st))"
    by simp_all
  have step: "case (counters st, counters st1) of
        ((g, f, ed, s), (g', f', ed', s')) \<Rightarrow>
          g \<le> g' \<and> f \<le> f' \<and> ed \<le> ed' \<and> s \<le> s' \<and>
          g' + f' + ed' + s' \<le> g + f + ed + s + 1"
    using c1 by (auto simp: counters_def one_more_def)
  show ?case
  proof (cases c)
    case Continue
    then have "get_lcs_loop ev js (w1, st1) = (e, w', st')"
      using Cons.prems it by simp
    from Cons.IH [OF this] f1 step show ?thesis
      by (auto simp: counters_def)
  next
    case Return
    then have "st' = st1" using Cons.prems it by simp
    then show ?thesis using f1 step by (auto simp: counters_def)
  next
    case (Raise x)
    then have "st' = st1" using Cons.prems it by simp
    then show ?thesis using f1 step by (auto simp: counters_def)
  qed
qed

lemma get_lcs_frame:
  assumes "get_lcs ev (w, st) = (r, w', st')"
  shows "settings st' = settings st \<and>
     (case (counters st, counters st') of
        ((g, f, ed, s), (g', f', ed', s')) \<Rightarrow>
          g \<le> g' \<and> f \<le> f' \<and> ed \<le> ed' \<and> s \<le> s' \<and>
          (\<forall>n. sectors_available st = Some n \<longrightarrow> g' + f' + ed' + s' \<le> g + f + ed + s + int (nat n)))"
proof (cases "sectors_available st")
  case None
  then have "st' = st" using assms by (simp add: get_lcs_def)
  then show ?thesis by (simp add: counters_def None)
next
  case (Some n)
  let ?st0 = "st\<lparr>lcs := replicate (nat n) None\<rparr>"
  obtain e w1 st1 where lp: "get_lcs_loop ev [0..<nat n] (w, ?st0) = (e, w1, st1)"
    by (metis prod_cases3)
  have same: "settings ?st0 = settings st" "counters ?st0 = counters st"
    by (simp_all add: settings_def counters_def)
  have "st' = st1"
    using assms Some lp
    by (cases e) (simp_all add: get_lcs_def call_bool_def)
  with loop_frame [OF lp] same Some show ?thesis
    by (auto simp: counters_def)
qed

lemma sl_flat:
  assumes "\<not> debug st" "cutout_size st = 2" "scattered_light_frequency st = 5" "lstsq ev = plane_fit"
  shows "scattered_light ev st [flat_frame v] = Inr (\<bar>v\<bar> > 2.5)"
  using assms by (simp add: scattered_light_def arange_def fit_flat py_max_def)

lemma run_lost_good:
  "get_lcs_loop (demo_env []) [0..<nat 2]
     (demo_world, (searched [lost_cand, good_cand])\<lparr>lcs := replicate (nat 2) None\<rparr>) =
   (Completed,
    demo_world\<lparr>events := [Download 0 None, Download 1 None, NearEdge 1, CorrectLC 1,
                            ScatteredLight 1, Plot 1, SaveFig ''out/Figures/LCs'' 1]\<rparr>,
    (searched [lost_cand, good_cand])
      \<lparr>lcs := [None, Some (TESSCutLightcurve good_cand)], n_failed_download := 1, n_good_obs := 1\<rparr>)"
proof -
  have sl: "scattered_light (demo_env []) st [flat_frame 0] = Inr False"
    if "\<not> debug st" "cutout_size st = 2" "scattered_light_frequency st = 5" for st
    using sl_flat [OF that, of "demo_env []" 0] by (simp add: demo_env_def)
  show ?thesis
    by (simp add: numeral_2_eq_2 upt_rec searched_def demo_state_def new_ensemble_def demo_args_def
        get_lcs_iteration_def download_stage_def downloadable_def near_edge_stage_def
        scattered_light_stage_def accept_lc_def emit_def emit_if_def Let_def
        lost_cand_def good_cand_def join2_def demo_world_def sl)
qed

lemma get_lcs_lost_good:
  "get_lcs (demo_env []) (demo_world, searched [lost_cand, good_cand]) =
   (Inl TypeError,
    demo_world\<lparr>events := [Download 0 None, Download 1 None, NearEdge 1, CorrectLC 1,
                            ScatteredLight 1, Plot 1, SaveFig ''out/Figures/LCs'' 1]\<rparr>,
    (searched [lost_cand, good_cand])
      \<lparr>lcs := [None, Some (TESSCutLightcurve good_cand)], n_failed_download := 1, n_good_obs := 1\<rparr>)"
  using run_lost_good by (simp add: get_lcs_def call_bool_def searched_fields)

subsection \<open>A run of get\_lcs up to a failing gate\<close>

lemma loop_append:
  "get_lcs_loop ev (xs @ ys) ws =
     (case get_lcs_loop ev xs ws of
        (Completed, ws') \<Rightarrow> get_lcs_loop ev ys ws'
      | (Returned, ws') \<Rightarrow> (Returned, ws')
      | (Raised e, ws') \<Rightarrow> (Raised e, ws'))"
proof (induction xs arbitrary: ws)
  case Nil
  then show ?case by simp
next
  case (Cons x xs)
  obtain c ws1 where it: "get_lcs_iteration ev x ws = (c, ws1)"
    by (cases "get_lcs_iteration ev x ws")
  show ?case
    using Cons.IH [of ws1] it by (cases c) simp_all
qed

lemma loop_from_reached:
  assumes "int i < n"
    and "get_lcs_loop ev [0..<i] ws0 = (Completed, ws)"
  shows "get_lcs_loop ev [0..<nat n] ws0 = get_lcs_loop ev [i..<nat n] ws"
proof -
  have "i \<le> nat n" using assms(1) by linarith
  then have "[0..<nat n] = [0..<i] @ [i..<nat n]"
    using upt_add_eq_append [of 0 i "nat n - i"] by simp
  then show ?thesis using assms(2) by (simp add: loop_append)
qed

lemma get_lcs_of_loop:
  assumes "sectors_available st = Some n"
  shows "get_lcs ev (w, st) =
           (case get_lcs_loop ev [0..<nat n] (w, st\<lparr>lcs := replicate (nat n) None\<rparr>) of
              (Raised e, ws') \<Rightarrow> (Inl e, ws')
            | (Returned, ws') \<Rightarrow> (Inr (), ws')
            | (Completed, ws') \<Rightarrow> (Inl TypeError, ws'))"
proof -
  obtain e w' st' where lp:
    "get_lcs_loop ev [0..<nat n] (w, st\<lparr>lcs := replicate (nat n) None\<rparr>) = (e, w', st')"
    by (metis prod_cases3)
  show ?thesis
    using assms lp by (cases e) (simp_all add: get_lcs_def call_bool_def)
qed

lemma reached_sectors:
  assumes "sectors_available st = Some n"
    and "get_lcs_loop ev js (w, st\<lparr>lcs := replicate (nat n) None\<rparr>) = (e, wi, sti)"
  shows "sectors_available sti = Some n"
  using loop_frame [OF assms(2)] assms(1) by (simp add: settings_def)

lemma run_after_failure:
  assumes "sectors_available st = Some n" and "int i < n"
    and "get_lcs_loop ev [0..<i] (w, st\<lparr>lcs := replicate (nat n) None\<rparr>) = (Completed, wi, sti)"
    and "get_lcs_iteration ev i (wi, sti) = (if int i + 1 < n then Continue else Return, ws')"
  shows "get_lcs_loop ev [0..<nat n] (w, st\<lparr>lcs := replicate (nat n) None\<rparr>) =
           (if int i + 1 < n then get_lcs_loop ev [Suc i..<nat n] ws' else (Returned, ws')) \<and>
         get_lcs ev (w, st) =
           (if int i + 1 < n then
              (case get_lcs_loop ev [Suc i..<nat n] ws' of
                 (Raised e, ws'') \<Rightarrow> (Inl e, ws'')
               | (Returned, ws'') \<Rightarrow> (Inr (), ws'')
               | (Completed, ws'') \<Rightarrow> (Inl TypeError, ws''))
            else (Inr (), ws'))"
proof -
  have l: "get_lcs_loop ev [0..<nat n] (w, st\<lparr>lcs := replicate (nat n) None\<rparr>) =
           (if int i + 1 < n then get_lcs_loop ev [Suc i..<nat n] ws' else (Returned, ws'))"
    using loop_from_reached [OF assms(2,3)] loop_after_failure [OF assms(2,4)] by simp
  show ?thesis
    using l get_lcs_of_loop [OF assms(1), of ev w] by simp
qed

lemma plain_searched:
  "plain_pipeline cs ((searched cs)\<lparr>lcs := replicate (nat (int (length cs))) None\<rparr>)"
  by (simp add: plain_pipeline_def searched_def demo_state_def new_ensemble_def demo_args_def)

lemma plain_download:
  assumes "plain_pipeline cs st" "i < length cs"
  shows "download_stage i (w, st) =
           (Inr (if cand_downloads (cs ! i) then Some (cs ! i) else None), emit (Download i None) w)"
  using assms by (simp add: plain_pipeline_def download_stage_def emit_if_def downloadable_def)

lemma plain_good_round:
  assumes "plain_pipeline cs st" "i < length cs" "cs ! i = good_cand"
  shows "get_lcs_iteration (demo_env cs') i (w, st) =
           (Continue,
            w\<lparr>events := events w @ [Download i None, NearEdge i, CorrectLC i, ScatteredLight i,
                                    Plot i, SaveFig ''out/Figures/LCs'' i]\<rparr>,
            st\<lparr>n_good_obs := n_good_obs st + 1,
                lcs := (lcs st)[i := Some (TESSCutLightcurve good_cand)]\<rparr>)"
proof -
  have sl: "scattered_light (demo_env cs') st (cand_residuals good_cand) = Inr False"
    using assms(1) sl_flat [of st "demo_env cs'" 0]
    by (simp add: plain_pipeline_def demo_env_def good_cand_def)
  have d: "download_stage i (w, st) = (Inr (Some good_cand), emit (Download i None) w)"
    using plain_download [OF assms(1,2)] assms(3) by (simp add: good_cand_def)
  have g: "cand_near_edge good_cand = False" by (simp add: good_cand_def)
  show ?thesis
    using assms(1,2)
    by (simp add: get_lcs_iteration_def d plain_pipeline_def near_edge_stage_def g
        scattered_light_stage_def sl accept_lc_def emit_def emit_if_def Let_def join2_def)
qed

lemma plain_after_good:
  assumes "plain_pipeline cs st"
  shows "plain_pipeline cs (st\<lparr>n_good_obs := g, lcs := (lcs st)[i := l]\<rparr>)"
  using assms by (simp add: plain_pipeline_def)

text \<open>
  C1. Take a run of \<^verbatim>\<open>get_lcs\<close> on an object with \<open>n\<close> candidates, whose loop, started
  at index 0 on the object with its list of light curves reset, has reached an index
  \<open>i\<close> of the range. When at \<open>i\<close> the download gate fails (the download returns nothing),
  the edge gate fails, or the scattered-light gate fails, the round adds exactly one to
  that gate's counter and changes nothing else of the object; the trace gains only the
  events of the gates up to the failing one, so no later gate is evaluated for \<open>i\<close>. If
  \<open>i + 1 < n\<close> the loop, and with it \<^verbatim>\<open>get_lcs\<close>, goes on with index \<open>i + 1\<close> from that
  state; if \<open>i\<close> is the last index the loop ends by \<^verbatim>\<open>return\<close> and \<^verbatim>\<open>get_lcs\<close> ends
  normally at once, in that state (the statements after the loop are not reached).
\<close>

theorem gate_failure_policy:
  assumes "sectors_available st = Some n" and "int i < n"
    and "get_lcs_loop ev [0..<i] (w, st\<lparr>lcs := replicate (nat n) None\<rparr>) = (Completed, wi, sti)"
  shows
    "(download_stage i (wi, sti) = (Inr None, w1) \<longrightarrow>
        (let ws' = (emit_if (verbose sti) (Print FailedDownload) w1,
                    sti\<lparr>n_failed_download := n_failed_download sti + 1\<rparr>)
         in get_lcs_iteration ev i (wi, sti) = (if int i + 1 < n then Continue else Return, ws') \<and>
            get_lcs_loop ev [0..<nat n] (w, st\<lparr>lcs := replicate (nat n) None\<rparr>) =
              (if int i + 1 < n then get_lcs_loop ev [Suc i..<nat n] ws' else (Returned, ws')) \<and>
            get_lcs ev (w, st) =
              (if int i + 1 < n then
                 (case get_lcs_loop ev [Suc i..<nat n] ws' of
                    (Raised e, ws'') \<Rightarrow> (Inl e, ws'')
                  | (Returned, ws'') \<Rightarrow> (Inr (), ws'')
                  | (Completed, ws'') \<Rightarrow> (Inl TypeError, ws''))
               else (Inr (), ws')))) \<and>
     (download_stage i (wi, sti) = (Inr (Some c), w1) \<and> cand_near_edge c \<longrightarrow>
        (let ws' = (emit_if (verbose sti) (Print FailedNearEdgeTest) (emit (NearEdge i) w1),
                    sti\<lparr>n_near_edge := n_near_edge sti + 1\<rparr>)
         in get_lcs_iteration ev i (wi, sti) = (if int i + 1 < n then Continue else Return, ws') \<and>
            get_lcs_loop ev [0..<nat n] (w, st\<lparr>lcs := replicate (nat n) None\<rparr>) =
              (if int i + 1 < n then get_lcs_loop ev [Suc i..<nat n] ws' else (Returned, ws')) \<and>
            get_lcs ev (w, st) =
              (if int i + 1 < n then
                 (case get_lcs_loop ev [Suc i..<nat n] ws' of
                    (Raised e, ws'') \<Rightarrow> (Inl e, ws'')
                  | (Returned, ws'') \<Rightarrow> (Inr (), ws'')
                  | (Completed, ws'') \<Rightarrow> (Inl TypeError, ws''))
               else (Inr (), ws')))) \<and>
     (download_stage i (wi, sti) = (Inr (Some c), w1) \<and> \<not> cand_near_edge c \<and>
      scattered_light ev sti (cand_residuals c) = Inr True \<longrightarrow>
        (let ws' = (emit_if (verbose sti) (Print FailedScatteredLightTest)
                      (emit (ScatteredLight i) (emit (CorrectLC i) (emit (NearEdge i) w1))),
                    sti\<lparr>n_scattered_light := n_scattered_light sti + 1\<rparr>)
         in get_lcs_iteration ev i (wi, sti) = (if int i + 1 < n then Continue else Return, ws') \<and>
            get_lcs_loop ev [0..<nat n] (w, st\<lparr>lcs := replicate (nat n) None\<rparr>) =
              (if int i + 1 < n then get_lcs_loop ev [Suc i..<nat n] ws' else (Returned, ws')) \<and>
            get_lcs ev (w, st) =
              (if int i + 1 < n then
                 (case get_lcs_loop ev [Suc i..<nat n] ws' of
                    (Raised e, ws'') \<Rightarrow> (Inl e, ws'')
                  | (Returned, ws'') \<Rightarrow> (Inr (), ws'')
                  | (Completed, ws'') \<Rightarrow> (Inl TypeError, ws''))
               else (Inr (), ws'))))"
proof -
  have ni: "sectors_available sti = Some n"
    by (rule reached_sectors [OF assms(1,3)])
  show ?thesis
  proof (intro conjI impI)
    assume d: "download_stage i (wi, sti) = (Inr None, w1)"
    from iteration_download_fails [OF ni assms(2) d, of ev]
    have it: "get_lcs_iteration ev i (wi, sti) =
        (if int i + 1 < n then Continue else Return,
         emit_if (verbose sti) (Print FailedDownload) w1,
         sti\<lparr>n_failed_download := n_failed_download sti + 1\<rparr>)" .
    from run_after_failure [OF assms it] it
    show "let ws' = (emit_if (verbose sti) (Print FailedDownload) w1,
                    sti\<lparr>n_failed_download := n_failed_download sti + 1\<rparr>)
         in get_lcs_iteration ev i (wi, sti) = (if int i + 1 < n then Continue else Return, ws') \<and>
            get_lcs_loop ev [0..<nat n] (w, st\<lparr>lcs := replicate (nat n) None\<rparr>) =
              (if int i + 1 < n then get_lcs_loop ev [Suc i..<nat n] ws' else (Returned, ws')) \<and>
            get_lcs ev (w, st) =
              (if int i + 1 < n then
                 (case get_lcs_loop ev [Suc i..<nat n] ws' of
                    (Raised e, ws'') \<Rightarrow> (Inl e, ws'')
                  | (Returned, ws'') \<Rightarrow> (Inr (), ws'')
                  | (Completed, ws'') \<Rightarrow> (Inl TypeError, ws''))
               else (Inr (), ws'))"
      unfolding Let_def by blast
  next
    assume d: "download_stage i (wi, sti) = (Inr (Some c), w1) \<and> cand_near_edge c"
    from iteration_near_edge_fails [OF ni assms(2), of wi c w1 ev] d
    have it: "get_lcs_iteration ev i (wi, sti) =
        (if int i + 1 < n then Continue else Return,
         emit_if (verbose sti) (Print FailedNearEdgeTest) (emit (NearEdge i) w1),
         sti\<lparr>n_near_edge := n_near_edge sti + 1\<rparr>)" by blast
    from run_after_failure [OF assms it] it
    show "let ws' = (emit_if (verbose sti) (Print FailedNearEdgeTest) (emit (NearEdge i) w1),
                    sti\<lparr>n_near_edge := n_near_edge sti + 1\<rparr>)
         in get_lcs_iteration ev i (wi, sti) = (if int i + 1 < n then Continue else Return, ws') \<and>
            get_lcs_loop ev [0..<nat n] (w, st\<lparr>lcs := replicate (nat n) None\<rparr>) =
              (if int i + 1 < n then get_lcs_loop ev [Suc i..<nat n] ws' else (Returned, ws')) \<and>
            get_lcs ev (w, st) =
              (if int i + 1 < n then
                 (case get_lcs_loop ev [Suc i..<nat n] ws' of
                    (Raised e, ws'') \<Rightarrow> (Inl e, ws'')
                  | (Returned, ws'') \<Rightarrow> (Inr (), ws'')
                  | (Completed, ws'') \<Rightarrow> (Inl TypeError, ws''))
               else (Inr (), ws'))"
      unfolding Let_def by blast
  next
    assume d: "download_stage i (wi, sti) = (Inr (Some c), w1) \<and> \<not> cand_near_edge c \<and>
      scattered_light ev sti (cand_residuals c) = Inr True"
    from iteration_scattered_light_fails [OF ni assms(2), of wi c w1 ev] d
    have it: "get_lcs_iteration ev i (wi, sti) =
        (if int i + 1 < n then Continue else Return,
         emit_if (verbose sti) (Print FailedScatteredLightTest)
           (emit (ScatteredLight i) (emit (CorrectLC i) (emit (NearEdge i) w1))),
         sti\<lparr>n_scattered_light := n_scattered_light sti + 1\<rparr>)" by blast
    from run_after_failure [OF assms it] it
    show "let ws' = (emit_if (verbose sti) (Print FailedScatteredLightTest)
                      (emit (ScatteredLight i) (emit (CorrectLC i) (emit (NearEdge i) w1))),
                    sti\<lparr>n_scattered_light := n_scattered_light sti + 1\<rparr>)
         in get_lcs_iteration ev i (wi, sti) = (if int i + 1 < n then Continue else Return, ws') \<and>
            get_lcs_loop ev [0..<nat n] (w, st\<lparr>lcs := replicate (nat n) None\<rparr>) =
              (if int i + 1 < n then get_lcs_loop ev [Suc i..<nat n] ws' else (Returned, ws')) \<and>
            get_lcs ev (w, st) =
              (if int i + 1 < n then
                 (case get_lcs_loop ev [Suc i..<nat n] ws' of
                    (Raised e, ws'') \<Rightarrow> (Inl e, ws'')
                  | (Returned, ws'') \<Rightarrow> (Inr (), ws'')
                  | (Completed, ws'') \<Rightarrow> (Inl TypeError, ws''))
               else (Inr (), ws'))"
      unfolding Let_def by blast
  qed
qed

lemma second_candidate_fails:
  assumes c: "c = lost_cand \<or> c = edge_cand \<or> c = bright_cand"
  defines "st \<equiv> searched [good_cand, c]"
  defines "st0 \<equiv> (searched [good_cand, c])\<lparr>lcs := replicate (nat 2) None\<rparr>"
  defines "w1 \<equiv> demo_world\<lparr>events := events demo_world @ [Download 0 None, NearEdge 0, CorrectLC 0,
                   ScatteredLight 0, Plot 0, SaveFig ''out/Figures/LCs'' 0]\<rparr>"
  defines "st1 \<equiv> st0\<lparr>n_good_obs := n_good_obs st0 + 1,
                      lcs := (lcs st0)[0 := Some (TESSCutLightcurve good_cand)]\<rparr>"
  shows "sectors_available st = Some 2"
    and "get_lcs_loop (demo_env []) [0..<1] (demo_world, st\<lparr>lcs := replicate (nat 2) None\<rparr>)
           = (Completed, w1, st1)"
    and "download_stage 1 (w1, st1) =
           (Inr (if c = lost_cand then None else Some c), emit (Download 1 None) w1)"
    and "verbose st1 = False" "n_good_obs st1 = 1" "n_failed_download st1 = 0"
        "n_near_edge st1 = 0" "n_scattered_light st1 = 0"
    and "scattered_light (demo_env []) st1 (cand_residuals bright_cand) = Inr True"
proof -
  have p0: "plain_pipeline [good_cand, c] st0"
    unfolding st0_def
    by (simp add: plain_pipeline_def searched_def demo_state_def new_ensemble_def demo_args_def)
  have r0: "get_lcs_iteration (demo_env []) 0 (demo_world, st0) = (Continue, w1, st1)"
    unfolding w1_def st1_def by (rule plain_good_round [OF p0]) simp_all
  show "sectors_available st = Some 2"
    unfolding st_def by (simp add: searched_fields)
  show "get_lcs_loop (demo_env []) [0..<1] (demo_world, st\<lparr>lcs := replicate (nat 2) None\<rparr>)
           = (Completed, w1, st1)"
    using r0 unfolding st_def st0_def by (simp add: upt_rec)
  have p1: "plain_pipeline [good_cand, c] st1"
    unfolding st1_def by (rule plain_after_good [OF p0])
  have dl: "cand_downloads c \<longleftrightarrow> c \<noteq> lost_cand"
    using c by (auto simp: lost_cand_def edge_cand_def bright_cand_def good_cand_def)
  show "download_stage 1 (w1, st1) =
           (Inr (if c = lost_cand then None else Some c), emit (Download 1 None) w1)"
    using plain_download [OF p1, of 1 w1] dl by simp
  show "verbose st1 = False"
    using p1 by (simp add: plain_pipeline_def)
  show "n_good_obs st1 = 1" "n_failed_download st1 = 0" "n_near_edge st1 = 0"
    "n_scattered_light st1 = 0"
    unfolding st1_def st0_def by (simp_all add: searched_def demo_state_def new_ensemble_def)
  show "scattered_light (demo_env []) st1 (cand_residuals bright_cand) = Inr True"
    using p1 sl_flat [of st1 "demo_env []" 3]
    by (simp add: plain_pipeline_def demo_env_def bright_cand_def good_cand_def)
qed

theorem gate_failure_policy_witness:
  "(case get_lcs (demo_env []) (demo_world, searched [good_cand, lost_cand]) of
      (r, w', st') \<Rightarrow>
        r = Inr () \<and>
        events w' = [Download 0 None, NearEdge 0, CorrectLC 0, ScatteredLight 0, Plot 0,
                     SaveFig ''out/Figures/LCs'' 0, Download 1 None] \<and>
        n_good_obs st' = 1 \<and> n_failed_download st' = 1 \<and> n_near_edge st' = 0 \<and>
        n_scattered_light st' = 0) \<and>
   (case get_lcs (demo_env []) (demo_world, searched [good_cand, edge_cand]) of
      (r, w', st') \<Rightarrow>
        r = Inr () \<and>
        events w' = [Download 0 None, NearEdge 0, CorrectLC 0, ScatteredLight 0, Plot 0,
                     SaveFig ''out/Figures/LCs'' 0, Download 1 None, NearEdge 1] \<and>
        n_good_obs st' = 1 \<and> n_failed_download st' = 0 \<and> n_near_edge st' = 1 \<and>
        n_scattered_light st' = 0) \<and>
   (case get_lcs (demo_env []) (demo_world, searched [good_cand, bright_cand]) of
      (r, w', st') \<Rightarrow>
        r = Inr () \<and>
        events w' = [Download 0 None, NearEdge 0, CorrectLC 0, ScatteredLight 0, Plot 0,
                     SaveFig ''out/Figures/LCs'' 0, Download 1 None, NearEdge 1, CorrectLC 1,
                     ScatteredLight 1] \<and>
        n_good_obs st' = 1 \<and> n_failed_download st' = 0 \<and> n_near_edge st' = 0 \<and>
        n_scattered_light st' = 1) \<and>
   (case get_lcs (demo_env []) (demo_world, searched [lost_cand, good_cand]) of
      (r, w', st') \<Rightarrow>
        r = Inl TypeError \<and>
        events w' = [Download 0 None, Download 1 None, NearEdge 1, CorrectLC 1, ScatteredLight 1,
                     Plot 1, SaveFig ''out/Figures/LCs'' 1] \<and>
        n_good_obs st' = 1 \<and> n_failed_download st' = 1 \<and> n_near_edge st' = 0 \<and>
        n_scattered_light st' = 0)"
proof -
  have i: "int 1 < 2" by simp
  have ev0: "events demo_world = []" by (simp add: demo_world_def)
  have ne: "cand_near_edge edge_cand" "\<not> cand_near_edge bright_cand"
    "edge_cand \<noteq> lost_cand" "bright_cand \<noteq> lost_cand"
    by (simp_all add: edge_cand_def bright_cand_def lost_cand_def good_cand_def)
  have cl: "lost_cand = lost_cand \<or> lost_cand = edge_cand \<or> lost_cand = bright_cand" by simp
  have ce: "edge_cand = lost_cand \<or> edge_cand = edge_cand \<or> edge_cand = bright_cand" by simp
  have cb: "bright_cand = lost_cand \<or> bright_cand = edge_cand \<or> bright_cand = bright_cand" by simp
  note l = second_candidate_fails [OF cl]
  note e = second_candidate_fails [OF ce]
  note b = second_candidate_fails [OF cb]
  have a1: "case get_lcs (demo_env []) (demo_world, searched [good_cand, lost_cand]) of
      (r, w', st') \<Rightarrow>
        r = Inr () \<and>
        events w' = [Download 0 None, NearEdge 0, CorrectLC 0, ScatteredLight 0, Plot 0,
                     SaveFig ''out/Figures/LCs'' 0, Download 1 None] \<and>
        n_good_obs st' = 1 \<and> n_failed_download st' = 1 \<and> n_near_edge st' = 0 \<and>
        n_scattered_light st' = 0"
    using gate_failure_policy [OF l(1) i l(2), where ?w1.0 = "emit (Download 1 None)
        (demo_world\<lparr>events := events demo_world @ [Download 0 None, NearEdge 0, CorrectLC 0,
                   ScatteredLight 0, Plot 0, SaveFig ''out/Figures/LCs'' 0]\<rparr>)"]
      l(3-8)
    by (simp add: Let_def emit_if_def emit_def ev0)
  have a2: "case get_lcs (demo_env []) (demo_world, searched [good_cand, edge_cand]) of
      (r, w', st') \<Rightarrow>
        r = Inr () \<and>
        events w' = [Download 0 None, NearEdge 0, CorrectLC 0, ScatteredLight 0, Plot 0,
                     SaveFig ''out/Figures/LCs'' 0, Download 1 None, NearEdge 1] \<and>
        n_good_obs st' = 1 \<and> n_failed_download st' = 0 \<and> n_near_edge st' = 1 \<and>
        n_scattered_light st' = 0"
    using gate_failure_policy [OF e(1) i e(2), where c = edge_cand and ?w1.0 = "emit (Download 1 None)
        (demo_world\<lparr>events := events demo_world @ [Download 0 None, NearEdge 0, CorrectLC 0,
                   ScatteredLight 0, Plot 0, SaveFig ''out/Figures/LCs'' 0]\<rparr>)"]
      e(3-8) ne
    by (simp add: Let_def emit_if_def emit_def ev0)
  have a3: "case get_lcs (demo_env []) (demo_world, searched [good_cand, bright_cand]) of
      (r, w', st') \<Rightarrow>
        r = Inr () \<and>
        events w' = [Download 0 None, NearEdge 0, CorrectLC 0, ScatteredLight 0, Plot 0,
                     SaveFig ''out/Figures/LCs'' 0, Download 1 None, NearEdge 1, CorrectLC 1,
                     ScatteredLight 1] \<and>
        n_good_obs st' = 1 \<and> n_failed_download st' = 0 \<and> n_near_edge st' = 0 \<and>
        n_scattered_light st' = 1"
    using gate_failure_policy [OF b(1) i b(2), where c = bright_cand and ?w1.0 = "emit (Download 1 None)
        (demo_world\<lparr>events := events demo_world @ [Download 0 None, NearEdge 0, CorrectLC 0,
                   ScatteredLight 0, Plot 0, SaveFig ''out/Figures/LCs'' 0]\<rparr>)"]
      b(3-9) ne
    by (simp add: Let_def emit_if_def emit_def ev0)
  have a4: "case get_lcs (demo_env []) (demo_world, searched [lost_cand, good_cand]) of
      (r, w', st') \<Rightarrow>
        r = Inl TypeError \<and>
        events w' = [Download 0 None, Download 1 None, NearEdge 1, CorrectLC 1, ScatteredLight 1,
                     Plot 1, SaveFig ''out/Figures/LCs'' 1] \<and>
        n_good_obs st' = 1 \<and> n_failed_download st' = 1 \<and> n_near_edge st' = 0 \<and>
        n_scattered_light st' = 0"
    unfolding get_lcs_lost_good
    by (simp add: searched_def demo_state_def new_ensemble_def)
  show ?thesis using a1 a2 a3 a4 by blast
qed

subsection \<open>The sum of the counters\<close>

text \<open>
  C5 (amended). From an object whose four counters are zero, as the constructor leaves
  them, and with \<open>n \<ge> 0\<close> candidates: after any number \<open>k\<close> of rounds of the loop of
  \<^verbatim>\<open>get_lcs\<close> (however the loop ended), and after \<^verbatim>\<open>get_lcs\<close> itself (however it
  ended), the sum of the four counters is at most \<open>sectors_available\<close>, which is
  unchanged; and one round leaves the counters as they were or adds one to exactly one of
  them.
\<close>

theorem counters_invariant:
  assumes "sectors_available st = Some n" and "0 \<le> n"
    and "n_good_obs st = 0" and "n_failed_download st = 0"
    and "n_near_edge st = 0" and "n_scattered_light st = 0"
  shows
    "(\<forall>k e w' st'.
        get_lcs_loop ev (take k [0..<nat n]) (w, st\<lparr>lcs := replicate (nat n) None\<rparr>) = (e, w', st') \<longrightarrow>
        n_good_obs st' + n_failed_download st' + n_near_edge st' + n_scattered_light st' \<le> n \<and>
        sectors_available st' = Some n) \<and>
     (\<forall>r w' st'.
        get_lcs ev (w, st) = (r, w', st') \<longrightarrow>
        n_good_obs st' + n_failed_download st' + n_near_edge st' + n_scattered_light st' \<le> n \<and>
        sectors_available st' = Some n) \<and>
     (\<forall>i w0 st0 c w' st'.
        get_lcs_iteration ev i (w0, st0) = (c, w', st') \<longrightarrow>
        (n_good_obs st' - n_good_obs st0, n_failed_download st' - n_failed_download st0,
         n_near_edge st' - n_near_edge st0, n_scattered_light st' - n_scattered_light st0)
        \<in> {(0, 0, 0, 0), (1, 0, 0, 0), (0, 1, 0, 0), (0, 0, 1, 0), (0, 0, 0, 1)})"
proof (intro conjI allI impI)
  fix k e w' st'
  let ?st0 = "st\<lparr>lcs := replicate (nat n) None\<rparr>"
  assume lp: "get_lcs_loop ev (take k [0..<nat n]) (w, ?st0) = (e, w', st')"
  have len: "int (length (take k [0..<nat n])) \<le> n"
    using assms(2) by simp
  have zero: "counters ?st0 = (0, 0, 0, 0)" "settings ?st0 = settings st"
    using assms by (simp_all add: counters_def settings_def)
  from loop_frame [OF lp] zero len
  show "n_good_obs st' + n_failed_download st' + n_near_edge st' + n_scattered_light st' \<le> n"
    by (auto simp: counters_def)
  from loop_frame [OF lp] zero assms(1)
  show "sectors_available st' = Some n"
    by (simp add: settings_def)
next
  fix r w' st'
  assume g: "get_lcs ev (w, st) = (r, w', st')"
  have zero: "counters st = (0, 0, 0, 0)"
    using assms by (simp add: counters_def)
  from get_lcs_frame [OF g] zero assms(1,2)
  show "n_good_obs st' + n_failed_download st' + n_near_edge st' + n_scattered_light st' \<le> n"
    by (auto simp: counters_def)
  from get_lcs_frame [OF g] assms(1)
  show "sectors_available st' = Some n"
    by (simp add: settings_def)
next
  fix i w0 st0 c w' st'
  assume "get_lcs_iteration ev i (w0, st0) = (c, w', st')"
  from iteration_frame [OF this]
  show "(n_good_obs st' - n_good_obs st0, n_failed_download st' - n_failed_download st0,
         n_near_edge st' - n_near_edge st0, n_scattered_light st' - n_scattered_light st0)
        \<in> {(0, 0, 0, 0), (1, 0, 0, 0), (0, 1, 0, 0), (0, 0, 1, 0), (0, 0, 0, 1)}"
    by (auto simp: counters_def one_more_def)
qed

theorem counters_invariant_witness:
  "sectors_available (searched [lost_cand, good_cand]) = Some 2 \<and> (0::int) \<le> 2 \<and>
   n_good_obs (searched [lost_cand, good_cand]) = 0 \<and>
   n_failed_download (searched [lost_cand, good_cand]) = 0 \<and>
   n_near_edge (searched [lost_cand, good_cand]) = 0 \<and>
   n_scattered_light (searched [lost_cand, good_cand]) = 0 \<and>
   (let st' = snd (snd (get_lcs (demo_env []) (demo_world, searched [lost_cand, good_cand])))
    in n_good_obs st' = 1 \<and> n_failed_download st' = 1 \<and>
       n_good_obs st' + n_failed_download st' + n_near_edge st' + n_scattered_light st' \<le> 2 \<and>
       sectors_available st' = Some 2)"
proof -
  let ?st = "searched [lost_cand, good_cand]"
  have h: "sectors_available ?st = Some 2" "(0::int) \<le> 2" "n_good_obs ?st = 0"
    "n_failed_download ?st = 0" "n_near_edge ?st = 0" "n_scattered_light ?st = 0"
    by (simp_all add: searched_def demo_state_def new_ensemble_def)
  obtain r w' st' where g: "get_lcs (demo_env []) (demo_world, ?st) = (r, w', st')"
    by (metis prod_cases3)
  from counters_invariant [OF h, of "demo_env []" demo_world] g
  have "n_good_obs st' + n_failed_download st' + n_near_edge st' + n_scattered_light st' \<le> 2 \<and>
        sectors_available st' = Some 2"
    by blast
  moreover have "n_good_obs st' = 1 \<and> n_failed_download st' = 1"
    using g get_lcs_lost_good by auto
  ultimately show ?thesis
    using h g by (simp add: Let_def)
qed

lemma run_good_then_lost:
  assumes p: "plain_pipeline [good_cand, lost_cand] (st\<lparr>lcs := replicate (nat 2) None\<rparr>)"
  shows "\<exists>w' st'. get_lcs (demo_env cs') (w, st) = (Inr (), w', st') \<and>
           n_good_obs st' = n_good_obs st + 1 \<and>
           n_failed_download st' = n_failed_download st + 1 \<and>
           n_near_edge st' = n_near_edge st \<and>
           n_scattered_light st' = n_scattered_light st \<and>
           sectors_available st' = Some 2 \<and>
           plain_pipeline [good_cand, lost_cand] (st'\<lparr>lcs := replicate (nat 2) None\<rparr>)"
proof -
  define st0 where "st0 = st\<lparr>lcs := replicate (nat 2) None\<rparr>"
  define w1 where "w1 = w\<lparr>events := events w @ [Download 0 None, NearEdge 0, CorrectLC 0,
                   ScatteredLight 0, Plot 0, SaveFig ''out/Figures/LCs'' 0]\<rparr>"
  define st1 where "st1 = st0\<lparr>n_good_obs := n_good_obs st0 + 1,
                      lcs := (lcs st0)[0 := Some (TESSCutLightcurve good_cand)]\<rparr>"
  define w2 where "w2 = emit_if (verbose st1) (Print FailedDownload) (emit (Download 1 None) w1)"
  define st2 where "st2 = st1\<lparr>n_failed_download := n_failed_download st1 + 1\<rparr>"
  have p0: "plain_pipeline [good_cand, lost_cand] st0"
    using p unfolding st0_def .
  have sa: "sectors_available st = Some 2"
    using p by (simp add: plain_pipeline_def)
  have r0: "get_lcs_iteration (demo_env cs') 0 (w, st0) = (Continue, w1, st1)"
    unfolding w1_def st1_def by (rule plain_good_round [OF p0]) simp_all
  have pre: "get_lcs_loop (demo_env cs') [0..<1] (w, st\<lparr>lcs := replicate (nat 2) None\<rparr>)
               = (Completed, w1, st1)"
    using r0 unfolding st0_def by (simp add: upt_rec)
  have p1: "plain_pipeline [good_cand, lost_cand] st1"
    unfolding st1_def by (rule plain_after_good [OF p0])
  have sa1: "sectors_available st1 = Some 2"
    using p1 by (simp add: plain_pipeline_def)
  have d: "download_stage 1 (w1, st1) = (Inr None, emit (Download 1 None) w1)"
    using plain_download [OF p1, of 1 w1] by (simp add: lost_cand_def good_cand_def)
  have i: "int 1 < 2" by simp
  have r1: "get_lcs_iteration (demo_env cs') 1 (w1, st1) =
              (if int 1 + 1 < 2 then Continue else Return, w2, st2)"
    unfolding w2_def st2_def by (rule iteration_download_fails [OF sa1 i d])
  have g: "get_lcs (demo_env cs') (w, st) = (Inr (), w2, st2)"
    using run_after_failure [OF sa i pre r1] by simp
  have p2: "plain_pipeline [good_cand, lost_cand] (st2\<lparr>lcs := replicate (nat 2) None\<rparr>)"
    using p1 unfolding st2_def by (simp add: plain_pipeline_def)
  have c: "n_good_obs st2 = n_good_obs st + 1" "n_failed_download st2 = n_failed_download st + 1"
    "n_near_edge st2 = n_near_edge st" "n_scattered_light st2 = n_scattered_light st"
    "sectors_available st2 = Some 2"
    using sa unfolding st2_def st1_def st0_def by simp_all
  show ?thesis using g p2 c by blast
qed

text \<open>
  C5, as stated, fails when \<^verbatim>\<open>get_lcs\<close> is called again on the same object: line 231
  resets the list of light curves, nothing resets the counters. With two candidates, the
  first good and the last failing to download, each call ends normally and adds one to
  \<open>n_good_obs\<close> and one to \<open>n_failed_download\<close>: after the second call the sum is 4 and
  \<open>sectors_available\<close> is 2.
\<close>

theorem counters_exceed_on_second_run_counterexample:
  "(case get_lcs (demo_env []) (demo_world, searched [good_cand, lost_cand]) of
      (r1, w1, st1) \<Rightarrow>
        r1 = Inr () \<and> n_good_obs st1 = 1 \<and> n_failed_download st1 = 1 \<and>
        n_near_edge st1 = 0 \<and> n_scattered_light st1 = 0 \<and> sectors_available st1 = Some 2 \<and>
        (case get_lcs (demo_env []) (w1, st1) of
           (r2, w2, st2) \<Rightarrow>
             r2 = Inr () \<and> n_good_obs st2 = 2 \<and> n_failed_download st2 = 2 \<and>
             n_near_edge st2 = 0 \<and> n_scattered_light st2 = 0 \<and> sectors_available st2 = Some 2 \<and>
             \<not> n_good_obs st2 + n_failed_download st2 + n_near_edge st2 + n_scattered_light st2 \<le> 2))"
proof -
  let ?st = "searched [good_cand, lost_cand]"
  have z: "n_good_obs ?st = 0" "n_failed_download ?st = 0" "n_near_edge ?st = 0"
    "n_scattered_light ?st = 0"
    by (simp_all add: searched_def demo_state_def new_ensemble_def)
  have p: "plain_pipeline [good_cand, lost_cand] (?st\<lparr>lcs := replicate (nat 2) None\<rparr>)"
    by (simp add: plain_pipeline_def searched_def demo_state_def new_ensemble_def demo_args_def)
  from run_good_then_lost [OF p, of "[]" demo_world]
  obtain w1 st1 where g1: "get_lcs (demo_env []) (demo_world, ?st) = (Inr (), w1, st1)"
    and c1: "n_good_obs st1 = 1" "n_failed_download st1 = 1" "n_near_edge st1 = 0"
      "n_scattered_light st1 = 0" "sectors_available st1 = Some 2"
    and p1: "plain_pipeline [good_cand, lost_cand] (st1\<lparr>lcs := replicate (nat 2) None\<rparr>)"
    using z by auto
  from run_good_then_lost [OF p1, of "[]" w1]
  obtain w2 st2 where g2: "get_lcs (demo_env []) (w1, st1) = (Inr (), w2, st2)"
    and c2: "n_good_obs st2 = 2" "n_failed_download st2 = 2" "n_near_edge st2 = 0"
      "n_scattered_light st2 = 0" "sectors_available st2 = Some 2"
    using c1 by auto
  show ?thesis
    by (simp add: g1 g2 c1 c2)
qed

text \<open>
  C2. Whenever the loop of \<^verbatim>\<open>get_lcs\<close> runs through all its candidates without a
  \<^verbatim>\<open>return\<close>, line 307 calls the bool \<^verbatim>\<open>no_lk_cache\<close> and \<^verbatim>\<open>get_lcs\<close> ends with
  a \<open>TypeError\<close>, in the world and with the object that the loop left: nothing is purged
  after the loop. The claim asks for a normal end there.
\<close>

theorem get_lcs_raises_when_loop_completes:
  assumes "sectors_available st = Some n"
    and "get_lcs_loop ev [0..<nat n] (w, st\<lparr>lcs := replicate (nat n) None\<rparr>) = (Completed, w', st')"
  shows "get_lcs ev (w, st) = (Inl TypeError, w', st')"
  using assms by (simp add: get_lcs_def call_bool_def)

theorem get_lcs_raises_when_loop_completes_witness:
  "sectors_available (searched [lost_cand, good_cand]) = Some 2 \<and>
   get_lcs (demo_env []) (demo_world, searched [lost_cand, good_cand]) =
   (Inl TypeError,
    demo_world\<lparr>events := [Download 0 None, Download 1 None, NearEdge 1, CorrectLC 1,
                            ScatteredLight 1, Plot 1, SaveFig ''out/Figures/LCs'' 1]\<rparr>,
    (searched [lost_cand, good_cand])
      \<lparr>lcs := [None, Some (TESSCutLightcurve good_cand)], n_failed_download := 1, n_good_obs := 1\<rparr>)"
proof -
  have h: "sectors_available (searched [lost_cand, good_cand]) = Some 2"
    by (simp add: searched_fields)
  from get_lcs_raises_when_loop_completes [OF h run_lost_good] h show ?thesis
    by simp
qed

subsection \<open>Without an output path\<close>

text \<open>
  C8. With \<^verbatim>\<open>output_path\<close> \<open>None\<close>, \<^verbatim>\<open>previously_downloaded\<close> and
  \<^verbatim>\<open>lightcurves_summary_file\<close> raise a \<open>TypeError\<close> at once, from
  \<^verbatim>\<open>os.path.join(None, ...)\<close> (lines 132 and 318), before the guard of line 347 that
  would skip the write: nothing is searched, run or written, and the call does not end
  normally. The claim asks that it does.
\<close>

theorem summary_file_without_output_path_raises:
  assumes "output_path st = None"
  shows "previously_downloaded st w = Inl TypeError \<and>
         lightcurves_summary_file ev (w, st) = (Inl TypeError, w, st)"
  using assms
  by (simp add: previously_downloaded_def lightcurves_summary_file_def LC_PATH_def os_path_join_def)

theorem summary_file_without_output_path_raises_witness:
  "output_path (demo_state\<lparr>output_path := None\<rparr>) = None \<and>
   lightcurves_summary_file (demo_env [good_cand]) (demo_world, demo_state\<lparr>output_path := None\<rparr>)
     = (Inl TypeError, demo_world, demo_state\<lparr>output_path := None\<rparr>)"
  using summary_file_without_output_path_raises
    [of "demo_state\<lparr>output_path := None\<rparr>" demo_world "demo_env [good_cand]"]
  by simp

subsection \<open>Saving and reloading\<close>

lemma has_tess_data_frame:
  assumes "has_tess_data ev (w, st) = (b, w', st')"
  shows "output_path st' = output_path st \<and> no_lk_cache st' = no_lk_cache st \<and>
         callable st' = callable st \<and> (\<exists>n. sectors_available st' = Some n)"
  using assms by (auto simp: has_tess_data_def Let_def)

lemma clear_cache_files:
  "clear_cache st w = (r, w') \<Longrightarrow> fits_files w' = fits_files w"
  by (auto simp: clear_cache_def emit_def split: sum.splits option.splits)

lemma run_pipeline_frame:
  assumes "run_pipeline ev (w, st) = (Inr u, w', st')"
  shows "output_path st' = output_path st \<and> (\<exists>n. sectors_available st' = Some n)"
proof -
  obtain b w1 st1 where h: "has_tess_data ev (w, st) = (b, w1, st1)"
    by (metis prod_cases3)
  note f1 = has_tess_data_frame [OF h]
  show ?thesis
  proof (cases b)
    case False
    then have "st' = st1" using assms h by (simp add: run_pipeline_def)
    then show ?thesis using f1 by simp
  next
    case True
    obtain r w2 st2 where g: "get_lcs ev (w1, st1) = (r, w2, st2)"
      by (metis prod_cases3)
    have "st' = st2"
      using assms h True g
      by (cases r) (auto simp: run_pipeline_def split: if_splits prod.splits)
    moreover have "settings st2 = settings st1"
      using get_lcs_frame [OF g] by simp
    ultimately show ?thesis using f1 by (auto simp: settings_def)
  qed
qed

lemma write_summary_file:
  assumes "write_summary path (w, st) = (Inr None, w', st')" "output_path st \<noteq> None"
  shows "\<exists>n hs. fits_files w' path = Some (PrimaryHDU (summary_header st n) # hs)"
  using assms
  by (auto simp: write_summary_def writeto_def emit_def split: option.splits sum.splits if_splits)

lemma header_get_summary:
  "header_get (summary_header st n) ''Name'' = Inr (hstr (cluster_name st))"
  "header_get (summary_header st n) ''Location'' = Inr (hstr (location st))"
  "header_get (summary_header st n) ''Radius [deg]'' = Inr (hreal (radius st))"
  "header_get (summary_header st n) ''Log_Age'' = Inl (KeyError ''Log_Age'')"
  by (simp_all add: summary_header_def header_get_def)

lemma as_of [simp]: "as_str (hstr x) = Inr x" "as_real (hreal y) = Inr y"
  by (simp_all add: as_str_def hstr_def as_real_def hreal_def split: option.splits)

lemma load_saved_header:
  "load_header path (PrimaryHDU (summary_header st n) # hs) new_ecl = Inl (KeyError ''Log_Age'')"
  by (simp add: load_header_def hdu_header_def header_get_summary bind_def Let_def)

lemma init_for_from_fits:
  assumes "\<not> arg_no_lk_cache kwargs"
  shows "\<exists>new_ecl. init ev (kwargs\<lparr>arg_cluster_name := Some [], arg_radius := QNone,
                            arg_cluster_age := QNone, arg_output_path := None\<rparr>) w = (Inr new_ecl, w)"
  using assms
  by (simp add: init_def convert_radius_def convert_age_def check_output_folder_def
      make_cache_folder_def check_subfolders_def)

text \<open>
  C3. Whenever \<^verbatim>\<open>lightcurves_summary_file\<close> has saved an artifact, reloading that
  artifact with \<^verbatim>\<open>from_fits\<close> (without the \<^verbatim>\<open>no_lk_cache\<close> option) raises
  \<open>KeyError\<close> for the key \<^verbatim>\<open>Log_Age\<close>: the header was written under the key
  \<^verbatim>\<open>Log Age\<close> (line 338) and is read back under \<^verbatim>\<open>Log_Age\<close> (line 403). No
  result is reloaded, so there is no round trip.
\<close>

theorem from_fits_of_saved_artifact_raises:
  assumes "lightcurves_summary_file ev (w, st) = (Inr None, w', st')"
    and "LC_PATH st = Inr path"
    and "\<not> arg_no_lk_cache kwargs"
  shows "from_fits ev path kwargs w' = (Inl (KeyError ''Log_Age''), w')"
proof -
  have op: "output_path st \<noteq> None"
    using assms(2) by (auto simp: LC_PATH_def os_path_join_def split: option.splits)
  obtain b where pd: "previously_downloaded st w = Inr b"
    using assms(2) by (simp add: previously_downloaded_def)
  have nb: "\<not> b"
    using assms(1,2) pd
    by (cases b) (auto simp: lightcurves_summary_file_def split: prod.splits sum.splits)
  obtain r w1 st1 where rp: "run_pipeline ev (w, st) = (r, w1, st1)"
    by (metis prod_cases3)
  obtain u where r: "r = Inr u" and ws: "write_summary path (w1, st1) = (Inr None, w', st')"
    using assms(1,2) pd nb rp
    by (cases r) (auto simp: lightcurves_summary_file_def)
  have "output_path st1 \<noteq> None"
    using run_pipeline_frame [OF rp [unfolded r]] op by simp
  from write_summary_file [OF ws this]
  obtain n hs where f: "fits_files w' path = Some (PrimaryHDU (summary_header st1 n) # hs)"
    by blast
  obtain new_ecl where i: "init ev (kwargs\<lparr>arg_cluster_name := Some [], arg_radius := QNone,
                            arg_cluster_age := QNone, arg_output_path := None\<rparr>) w' = (Inr new_ecl, w')"
    using init_for_from_fits [OF assms(3)] by blast
  show ?thesis
    by (simp add: from_fits_def i fits_open_def f load_saved_header)
qed

lemma has_tess_data_demo:
  "has_tess_data (demo_env cs) (demo_world, demo_state) =
     (cs \<noteq> [], emit (Search (Some ''NGC'')) demo_world, searched cs)"
  by (simp add: has_tess_data_def demo_env_def searched_def demo_state_def new_ensemble_def
      demo_args_def emit_if_def)

lemma run_good_lost:
  "get_lcs_loop (demo_env cs) [0..<nat 2]
     (w, (searched [good_cand, lost_cand])\<lparr>lcs := replicate (nat 2) None\<rparr>) =
   (Returned,
    w\<lparr>events := events w @ [Download 0 None, NearEdge 0, CorrectLC 0, ScatteredLight 0, Plot 0,
                            SaveFig ''out/Figures/LCs'' 0, Download 1 None]\<rparr>,
    (searched [good_cand, lost_cand])
      \<lparr>lcs := [Some (TESSCutLightcurve good_cand), None], n_failed_download := 1, n_good_obs := 1\<rparr>)"
proof -
  have sl: "scattered_light (demo_env cs) st [flat_frame 0] = Inr False"
    if "\<not> debug st" "cutout_size st = 2" "scattered_light_frequency st = 5" for st
    using sl_flat [OF that, of "demo_env cs" 0] by (simp add: demo_env_def)
  show ?thesis
    by (simp add: numeral_2_eq_2 upt_rec searched_def demo_state_def new_ensemble_def demo_args_def
        get_lcs_iteration_def download_stage_def downloadable_def near_edge_stage_def
        scattered_light_stage_def accept_lc_def emit_def emit_if_def Let_def
        lost_cand_def good_cand_def join2_def sl)
qed

lemma LC_PATH_demo:
  "LC_PATH demo_state = Inr ''out/Corrected_LCs/NGCoutput_table.fits''"
  "LC_PATH (searched cs) = Inr ''out/Corrected_LCs/NGCoutput_table.fits''"
  by (simp_all add: LC_PATH_def os_path_join_def searched_def demo_state_def new_ensemble_def
      demo_args_def join2_def str_opt_def)

lemma lc_hdus_good: "lc_hdus w [Some (TESSCutLightcurve good_cand), None] = Inr [BinTableHDU (cand_hdu good_cand)]"
  by (simp add: lc_hdu_def)

lemma writeto_demo: "writeto ''out/Corrected_LCs/NGCoutput_table.fits'' h (demo_world\<lparr>events := es\<rparr>) =
   Inr (demo_world\<lparr>fits_files := [''out/Corrected_LCs/NGCoutput_table.fits'' \<mapsto> h], events := es @ [WriteTo ''out/Corrected_LCs/NGCoutput_table.fits'']\<rparr>)"
  by (simp add: writeto_def os_path_exists_def demo_world_def emit_def)

lemma output_path_searched: "output_path (searched cs) = Some ''out''"
  by (simp add: searched_def demo_state_def new_ensemble_def demo_args_def)

lemma write_summary_good_lost: "write_summary ''out/Corrected_LCs/NGCoutput_table.fits''
              (demo_world\<lparr>events := es\<rparr>,
               (searched [good_cand, lost_cand])
                 \<lparr>lcs := [Some (TESSCutLightcurve good_cand), None], n_failed_download := 1, n_good_obs := 1\<rparr>)
            = (Inr None,
    demo_world
      \<lparr>fits_files :=
         [''out/Corrected_LCs/NGCoutput_table.fits'' \<mapsto>
            [PrimaryHDU (summary_header
               ((searched [good_cand, lost_cand])
                  \<lparr>lcs := [Some (TESSCutLightcurve good_cand), None],
                     n_failed_download := 1, n_good_obs := 1\<rparr>) 2),
             BinTableHDU (cand_hdu good_cand)]],
       events := es @ [WriteTo ''out/Corrected_LCs/NGCoutput_table.fits'']\<rparr>,
    (searched [good_cand, lost_cand])
      \<lparr>lcs := [Some (TESSCutLightcurve good_cand), None], n_failed_download := 1, n_good_obs := 1\<rparr>)"
  by (simp add: write_summary_def output_path_searched lc_hdus_good writeto_demo searched_fields del: lc_hdus.simps)

lemma save_good_lost:
  "lightcurves_summary_file (demo_env [good_cand, lost_cand]) (demo_world, demo_state) =
   (Inr None,
    demo_world
      \<lparr>fits_files :=
         [''out/Corrected_LCs/NGCoutput_table.fits'' \<mapsto>
            [PrimaryHDU (summary_header
               ((searched [good_cand, lost_cand])
                  \<lparr>lcs := [Some (TESSCutLightcurve good_cand), None],
                     n_failed_download := 1, n_good_obs := 1\<rparr>) 2),
             BinTableHDU (cand_hdu good_cand)]],
       events := [Search (Some ''NGC''), Download 0 None, NearEdge 0, CorrectLC 0,
                  ScatteredLight 0, Plot 0, SaveFig ''out/Figures/LCs'' 0, Download 1 None,
                  WriteTo ''out/Corrected_LCs/NGCoutput_table.fits'']\<rparr>,
    (searched [good_cand, lost_cand])
      \<lparr>lcs := [Some (TESSCutLightcurve good_cand), None], n_failed_download := 1, n_good_obs := 1\<rparr>)"
proof -
  have g: "get_lcs (demo_env [good_cand, lost_cand])
             (emit (Search (Some ''NGC'')) demo_world, searched [good_cand, lost_cand]) =
           (Inr (),
            demo_world\<lparr>events := [Search (Some ''NGC''), Download 0 None, NearEdge 0, CorrectLC 0,
                  ScatteredLight 0, Plot 0, SaveFig ''out/Figures/LCs'' 0, Download 1 None]\<rparr>,
            (searched [good_cand, lost_cand])
              \<lparr>lcs := [Some (TESSCutLightcurve good_cand), None], n_failed_download := 1, n_good_obs := 1\<rparr>)"
    using run_good_lost [of "[good_cand, lost_cand]" "emit (Search (Some ''NGC'')) demo_world"]
    by (simp add: get_lcs_def searched_fields emit_def demo_world_def)
  have r: "run_pipeline (demo_env [good_cand, lost_cand]) (demo_world, demo_state) =
           (Inr (),
            demo_world\<lparr>events := [Search (Some ''NGC''), Download 0 None, NearEdge 0, CorrectLC 0,
                  ScatteredLight 0, Plot 0, SaveFig ''out/Figures/LCs'' 0, Download 1 None]\<rparr>,
            (searched [good_cand, lost_cand])
              \<lparr>lcs := [Some (TESSCutLightcurve good_cand), None], n_failed_download := 1, n_good_obs := 1\<rparr>)"
    by (simp add: run_pipeline_def has_tess_data_demo g)
      (simp add: searched_def demo_state_def new_ensemble_def demo_args_def)
  have ne: "\<not> os_path_exists demo_world ''out/Corrected_LCs/NGCoutput_table.fits''"
    by (simp add: os_path_exists_def demo_world_def)
  show ?thesis
    using write_summary_good_lost [of "[Search (Some ''NGC''), Download 0 None, NearEdge 0, CorrectLC 0,
                  ScatteredLight 0, Plot 0, SaveFig ''out/Figures/LCs'' 0, Download 1 None]"]
    by (simp add: lightcurves_summary_file_def LC_PATH_demo previously_downloaded_def ne r)
qed

theorem from_fits_of_saved_artifact_raises_witness:
  "LC_PATH demo_state = Inr ''out/Corrected_LCs/NGCoutput_table.fits'' \<and>
   \<not> arg_no_lk_cache demo_args \<and>
   (case lightcurves_summary_file (demo_env [good_cand, lost_cand]) (demo_world, demo_state) of
      (r, w', st') \<Rightarrow>
        r = Inr None \<and>
        from_fits (demo_env [good_cand, lost_cand]) ''out/Corrected_LCs/NGCoutput_table.fits''
          demo_args w' = (Inl (KeyError ''Log_Age''), w'))"
proof -
  have k: "\<not> arg_no_lk_cache demo_args" by (simp add: demo_args_def)
  from from_fits_of_saved_artifact_raises [OF save_good_lost LC_PATH_demo(1) k] k
  show ?thesis
    by (simp add: LC_PATH_demo save_good_lost)
qed

subsection \<open>Saving twice\<close>

text \<open>
  C6. When the artifact of the pipeline's identifier exists, \<^verbatim>\<open>lightcurves_summary_file\<close>
  neither searches, nor runs the loop, nor writes: the object is unchanged, the world only
  gains the trace of one read, and the result is whatever \<^verbatim>\<open>Table.read(path, hdu=1)\<close>
  gives for the stored HDU list, the table at position 1 or the reader's error. An artifact
  saved with no surviving observation has only its primary HDU, so the second call raises
  where the claim says it returns the persisted summary.
\<close>

theorem summary_file_existing_artifact:
  assumes "LC_PATH st = Inr path" and "fits_files w path = Some hdul"
  shows "lightcurves_summary_file ev (w, st) =
           (map_sum id Some (table_read ev hdul 1), emit (ReadTable path 1) w, st)"
proof -
  have "previously_downloaded st w = Inr True"
    using assms by (simp add: previously_downloaded_def os_path_exists_def)
  moreover have "Table_read ev path 1 w = (table_read ev hdul 1, emit (ReadTable path 1) w)"
    using assms(2) by (simp add: Table_read_def fits_open_def emit_def)
  ultimately show ?thesis
    using assms(1)
    by (cases "table_read ev hdul 1") (simp_all add: lightcurves_summary_file_def)
qed

lemma save_nothing:
  "lightcurves_summary_file (demo_env []) (demo_world, demo_state) =
   (Inr None,
    demo_world
      \<lparr>fits_files :=
         [''out/Corrected_LCs/NGCoutput_table.fits'' \<mapsto>
            [PrimaryHDU (summary_header (searched []) 0)]],
       events := [Search (Some ''NGC''), WriteTo ''out/Corrected_LCs/NGCoutput_table.fits'']\<rparr>,
    searched [])"
proof -
  have ne: "\<not> os_path_exists demo_world ''out/Corrected_LCs/NGCoutput_table.fits''"
    by (simp add: os_path_exists_def demo_world_def)
  have r: "run_pipeline (demo_env []) (demo_world, demo_state) =
             (Inr (), demo_world\<lparr>events := [Search (Some ''NGC'')]\<rparr>, searched [])"
    using has_tess_data_demo [of "[]"] by (simp add: run_pipeline_def emit_def demo_world_def)
  have l: "lcs (searched []) = []"
    by (simp add: searched_def demo_state_def new_ensemble_def)
  have ws: "write_summary ''out/Corrected_LCs/NGCoutput_table.fits''
              (demo_world\<lparr>events := [Search (Some ''NGC'')]\<rparr>, searched []) =
            (Inr None,
             demo_world
               \<lparr>fits_files :=
                  [''out/Corrected_LCs/NGCoutput_table.fits'' \<mapsto>
                     [PrimaryHDU (summary_header (searched []) 0)]],
                events := [Search (Some ''NGC''), WriteTo ''out/Corrected_LCs/NGCoutput_table.fits'']\<rparr>,
             searched [])"
    by (simp add: write_summary_def output_path_searched writeto_demo searched_fields l)
  show ?thesis
    by (simp add: lightcurves_summary_file_def LC_PATH_demo previously_downloaded_def ne r ws)
qed

theorem summary_file_existing_artifact_witness:
  "(case lightcurves_summary_file (demo_env []) (demo_world, demo_state) of
      (r1, w1, st1) \<Rightarrow>
        r1 = Inr None \<and>
        LC_PATH st1 = Inr ''out/Corrected_LCs/NGCoutput_table.fits'' \<and>
        fits_files w1 ''out/Corrected_LCs/NGCoutput_table.fits''
          = Some [PrimaryHDU (summary_header (searched []) 0)] \<and>
        lightcurves_summary_file (demo_env []) (w1, st1) =
          (Inl ValueError, emit (ReadTable ''out/Corrected_LCs/NGCoutput_table.fits'' 1) w1, st1))"
proof -
  let ?w1 = "demo_world
      \<lparr>fits_files :=
         [''out/Corrected_LCs/NGCoutput_table.fits'' \<mapsto>
            [PrimaryHDU (summary_header (searched []) 0)]],
       events := [Search (Some ''NGC''), WriteTo ''out/Corrected_LCs/NGCoutput_table.fits'']\<rparr>"
  have f: "fits_files ?w1 ''out/Corrected_LCs/NGCoutput_table.fits''
          = Some [PrimaryHDU (summary_header (searched []) 0)]"
    by simp
  have t: "table_read (demo_env []) [PrimaryHDU (summary_header (searched []) 0)] 1 = Inl ValueError"
    by (simp add: demo_env_def strict_table_read_def)
  from summary_file_existing_artifact [OF LC_PATH_demo(2) f, where ev = "demo_env []"] t
  show ?thesis
    by (simp add: save_nothing LC_PATH_demo)
qed

subsection \<open>Access by index\<close>

text \<open>
  C7. With \<^verbatim>\<open>output_path\<close> \<open>None\<close> no artifact can exist, and
  \<^verbatim>\<open>access_lightcurve\<close> raises a \<open>TypeError\<close> while it forms the path (line 366),
  for every observation index: no warning is printed and nothing is returned. The claim
  asks for the warning and the pair of \<open>None\<close> values, without raising, whenever the
  artifact does not exist.
\<close>

theorem access_lightcurve_without_output_path_raises:
  assumes "output_path st = None"
  shows "access_lightcurve ev observation (w, st) = (Inl TypeError, w)"
  using assms
  by (cases "callable st")
    (simp_all add: access_lightcurve_def bind_def concat_str_def os_path_join_def)

theorem access_lightcurve_without_output_path_raises_witness:
  "output_path (demo_state\<lparr>output_path := None\<rparr>) = None \<and>
   \<not> os_path_exists demo_world ''out/Corrected_LCs/NGCoutput_table.fits'' \<and>
   access_lightcurve (demo_env []) 1 (demo_world, demo_state\<lparr>output_path := None\<rparr>)
     = (Inl TypeError, demo_world)"
proof -
  have "\<not> os_path_exists demo_world ''out/Corrected_LCs/NGCoutput_table.fits''"
    by (simp add: os_path_exists_def demo_world_def)
  then show ?thesis
    using access_lightcurve_without_output_path_raises
      [of "demo_state\<lparr>output_path := None\<rparr>" "demo_env []" 1 demo_world]
    by simp
qed

text \<open>
  What \<^verbatim>\<open>access_lightcurve\<close> does when the path of the artifact can be formed (an
  output path and an identifier are set), for every observation index: if nothing exists
  at that path, it prints the warning and returns \<open>(None, None)\<close> without raising and
  without touching a file; if the artifact exists and its table at position 1 tells through
  its column \<^verbatim>\<open>n_good_obs\<close> whether there is exactly one good observation, the next
  and only other read is at position 2 when there is exactly one and at position
  \<open>observation + 2\<close> otherwise, and a returned table is the one the reader gives at that
  position.
\<close>

lemma access_lightcurve_positions:
  assumes "callable st = Some c"
    and "os_path_join (output_path st) [''Corrected_LCs'', c @ ''output_table.fits''] = Inr path"
  shows
    "(\<not> os_path_exists w path \<longrightarrow>
        access_lightcurve ev observation (w, st) =
          (Inr (None, None), emit (Print NotDownloadedWarning) w)) \<and>
     (fits_files w path = Some hdul \<and> table_read ev hdul 1 = Inr output_table \<and>
      n_good_obs_is_one output_table = Inr one \<longrightarrow>
        (let pos = (if one then 2 else observation + 2)
         in \<exists>r w' rest.
              access_lightcurve ev observation (w, st) = (r, w') \<and>
              events w' = events w @ [ReadTable path 1, ReadTable path pos] @ rest \<and>
              fits_files w' = fits_files w \<and>
              (\<forall>fig t. r = Inr (fig, t) \<longrightarrow>
                 fig = Some (Figure observation) \<and> table_read ev hdul pos = Inr (the t) \<and> t \<noteq> None)))"
proof (intro conjI impI)
  have p: "bind (concat_str (callable st) ''output_table.fits'')
             (\<lambda>name. os_path_join (output_path st) [''Corrected_LCs'', name]) = Inr path"
    using assms by (simp add: bind_def concat_str_def)
  {
    assume "\<not> os_path_exists w path"
    then show "access_lightcurve ev observation (w, st) =
          (Inr (None, None), emit (Print NotDownloadedWarning) w)"
      by (simp add: access_lightcurve_def p)
  }
  assume h: "fits_files w path = Some hdul \<and> table_read ev hdul 1 = Inr output_table \<and>
      n_good_obs_is_one output_table = Inr one"
  define pos where "pos = (if one then 2 else observation + 2)"
  define w1 where "w1 = emit (ReadTable path 1) w"
  define w2 where "w2 = emit (ReadTable path pos) w1"
  have ex: "os_path_exists w path" using h by (simp add: os_path_exists_def)
  have r1: "Table_read ev path 1 w = (Inr output_table, w1)"
    using h by (simp add: Table_read_def fits_open_def emit_def w1_def)
  have r2: "Table_read ev path pos w1 = (table_read ev hdul pos, w2)"
    using h by (simp add: Table_read_def fits_open_def emit_def w1_def w2_def)
  have ev2: "events w2 = events w @ [ReadTable path 1, ReadTable path pos]"
    "fits_files w2 = fits_files w"
    by (simp_all add: w2_def w1_def emit_def)
  have acc: "access_lightcurve ev observation (w, st) =
      (case table_read ev hdul pos of
         Inl e \<Rightarrow> (Inl e, w2)
       | Inr t \<Rightarrow>
           (case draw_figure observation t of
              Inl e \<Rightarrow> (Inl e, w2)
            | Inr fig \<Rightarrow> (Inr (Some fig, Some t), emit (ShowFig observation) w2)))"
    using h ex r1 r2 by (simp add: access_lightcurve_def p pos_def)
  have fig: "fig = Figure observation" if "draw_figure observation t = Inr fig" for t fig
    using that by (auto simp: draw_figure_def bind_def split: sum.splits if_splits)
  have "\<exists>r w' rest.
              access_lightcurve ev observation (w, st) = (r, w') \<and>
              events w' = events w @ [ReadTable path 1, ReadTable path pos] @ rest \<and>
              fits_files w' = fits_files w \<and>
              (\<forall>fig t. r = Inr (fig, t) \<longrightarrow>
                 fig = Some (Figure observation) \<and> table_read ev hdul pos = Inr (the t) \<and> t \<noteq> None)"
  proof (cases "table_read ev hdul pos")
    case (Inl e)
    then have "access_lightcurve ev observation (w, st) = (Inl e, w2)"
      using acc by simp
    then show ?thesis using ev2 by simp
  next
    case (Inr t)
    show ?thesis
    proof (cases "draw_figure observation t")
      case (Inl e)
      then have "access_lightcurve ev observation (w, st) = (Inl e, w2)"
        using acc Inr by simp
      then show ?thesis using ev2 by simp
    next
      case (Inr f)
      then have "access_lightcurve ev observation (w, st) =
                   (Inr (Some f, Some t), emit (ShowFig observation) w2)"
        using acc \<open>table_read ev hdul pos = Inr t\<close> by simp
      moreover have "events (emit (ShowFig observation) w2) =
          events w @ [ReadTable path 1, ReadTable path pos] @ [ShowFig observation]"
        "fits_files (emit (ShowFig observation) w2) = fits_files w"
        using ev2 by (simp_all add: emit_def)
      ultimately show ?thesis
        using fig [OF Inr] \<open>table_read ev hdul pos = Inr t\<close> by simp
    qed
  qed
  then show "let pos = (if one then 2 else observation + 2)
         in \<exists>r w' rest.
              access_lightcurve ev observation (w, st) = (r, w') \<and>
              events w' = events w @ [ReadTable path 1, ReadTable path pos] @ rest \<and>
              fits_files w' = fits_files w \<and>
              (\<forall>fig t. r = Inr (fig, t) \<longrightarrow>
                 fig = Some (Figure observation) \<and> table_read ev hdul pos = Inr (the t) \<and> t \<noteq> None)"
    by (simp add: pos_def Let_def)
qed

lemma access_demo_path:
  "callable demo_state = Some ''NGC''"
  "os_path_join (output_path demo_state) [''Corrected_LCs'', ''NGC'' @ ''output_table.fits'']
     = Inr ''out/Corrected_LCs/NGCoutput_table.fits''"
  by (simp_all add: demo_state_def new_ensemble_def demo_args_def os_path_join_def join2_def)

lemma access_demo_bind:
  "bind (concat_str (callable demo_state) ''output_table.fits'')
     (\<lambda>name. os_path_join (output_path demo_state) [''Corrected_LCs'', name])
   = Inr ''out/Corrected_LCs/NGCoutput_table.fits''"
  by (simp add: bind_def concat_str_def demo_state_def new_ensemble_def demo_args_def
      os_path_join_def join2_def)

lemma summary_world_reads:
  "os_path_exists (summary_world k) ''out/Corrected_LCs/NGCoutput_table.fits''"
  "Table_read (demo_env []) ''out/Corrected_LCs/NGCoutput_table.fits'' 1 (summary_world k) =
     (Inr [(''n_good_obs'', [k])],
      (summary_world k)\<lparr>events := [ReadTable ''out/Corrected_LCs/NGCoutput_table.fits'' 1]\<rparr>)"
  "Table_read (demo_env []) ''out/Corrected_LCs/NGCoutput_table.fits'' 2
     ((summary_world k)\<lparr>events := es\<rparr>) =
     (Inr [(''time'', [0, 1]), (''flux'', [1, 2])],
      (summary_world k)\<lparr>events := es @ [ReadTable ''out/Corrected_LCs/NGCoutput_table.fits'' 2]\<rparr>)"
  "Table_read (demo_env []) ''out/Corrected_LCs/NGCoutput_table.fits'' 3
     ((summary_world k)\<lparr>events := es\<rparr>) =
     (Inr [(''time'', [0, 1]), (''flux'', [3, 4])],
      (summary_world k)\<lparr>events := es @ [ReadTable ''out/Corrected_LCs/NGCoutput_table.fits'' 3]\<rparr>)"
  by (simp_all add: os_path_exists_def summary_world_def summary_layout_def Table_read_def
      fits_open_def emit_def demo_env_def strict_table_read_def demo_world_def)

lemma summary_is_one:
  "n_good_obs_is_one [(''n_good_obs'', [k])] = Inr (k = 1)"
  by (simp add: n_good_obs_is_one_def column_def bind_def array_truth_def)

lemma draw_demo:
  "draw_figure obs [(''time'', [0, 1]), (''flux'', x # xs)] = Inr (Figure obs)"
  by (simp add: draw_figure_def column_def bind_def py_max_def py_min_def)

lemma access_summary_world:
  "access_lightcurve (demo_env []) 1 (summary_world 1, demo_state) =
     (Inr (Some (Figure 1), Some [(''time'', [0, 1]), (''flux'', [1, 2])]),
      (summary_world 1)
        \<lparr>events := [ReadTable ''out/Corrected_LCs/NGCoutput_table.fits'' 1,
                    ReadTable ''out/Corrected_LCs/NGCoutput_table.fits'' 2, ShowFig 1]\<rparr>)"
  "access_lightcurve (demo_env []) 1 (summary_world 3, demo_state) =
     (Inr (Some (Figure 1), Some [(''time'', [0, 1]), (''flux'', [3, 4])]),
      (summary_world 3)
        \<lparr>events := [ReadTable ''out/Corrected_LCs/NGCoutput_table.fits'' 1,
                    ReadTable ''out/Corrected_LCs/NGCoutput_table.fits'' 3, ShowFig 1]\<rparr>)"
  by (simp_all add: access_lightcurve_def access_demo_bind summary_world_reads summary_is_one
      draw_demo emit_def)

lemma access_lightcurve_positions_demo:
  "callable demo_state = Some ''NGC'' \<and>
   os_path_join (output_path demo_state) [''Corrected_LCs'', ''NGC'' @ ''output_table.fits'']
     = Inr ''out/Corrected_LCs/NGCoutput_table.fits'' \<and>
   \<not> os_path_exists demo_world ''out/Corrected_LCs/NGCoutput_table.fits'' \<and>
   access_lightcurve (demo_env []) 1 (demo_world, demo_state) =
     (Inr (None, None), emit (Print NotDownloadedWarning) demo_world) \<and>
   fits_files (summary_world 1) ''out/Corrected_LCs/NGCoutput_table.fits'' = Some (summary_layout 1) \<and>
   table_read (demo_env []) (summary_layout 1) 1 = Inr [(''n_good_obs'', [1])] \<and>
   n_good_obs_is_one [(''n_good_obs'', [1])] = Inr True \<and>
   access_lightcurve (demo_env []) 1 (summary_world 1, demo_state) =
     (Inr (Some (Figure 1), Some [(''time'', [0, 1]), (''flux'', [1, 2])]),
      (summary_world 1)
        \<lparr>events := [ReadTable ''out/Corrected_LCs/NGCoutput_table.fits'' 1,
                    ReadTable ''out/Corrected_LCs/NGCoutput_table.fits'' 2, ShowFig 1]\<rparr>) \<and>
   n_good_obs_is_one [(''n_good_obs'', [3])] = Inr False \<and>
   access_lightcurve (demo_env []) 1 (summary_world 3, demo_state) =
     (Inr (Some (Figure 1), Some [(''time'', [0, 1]), (''flux'', [3, 4])]),
      (summary_world 3)
        \<lparr>events := [ReadTable ''out/Corrected_LCs/NGCoutput_table.fits'' 1,
                    ReadTable ''out/Corrected_LCs/NGCoutput_table.fits'' 3, ShowFig 1]\<rparr>)"
proof -
  have ne: "\<not> os_path_exists demo_world ''out/Corrected_LCs/NGCoutput_table.fits''"
    by (simp add: os_path_exists_def demo_world_def)
  have f: "fits_files (summary_world 1) ''out/Corrected_LCs/NGCoutput_table.fits''
             = Some (summary_layout 1)"
    by (simp add: summary_world_def)
  have t: "table_read (demo_env []) (summary_layout 1) 1 = Inr [(''n_good_obs'', [1])]"
    by (simp add: demo_env_def strict_table_read_def summary_layout_def)
  have o: "n_good_obs_is_one [(''n_good_obs'', [1])] = Inr True"
    "n_good_obs_is_one [(''n_good_obs'', [3])] = Inr False"
    by (simp_all add: n_good_obs_is_one_def column_def bind_def array_truth_def)
  from access_lightcurve_positions [OF access_demo_path, of demo_world "demo_env []" 1] ne
  have "access_lightcurve (demo_env []) 1 (demo_world, demo_state) =
     (Inr (None, None), emit (Print NotDownloadedWarning) demo_world)"
    by blast
  then show ?thesis
    using ne f t o access_summary_world access_demo_path
    by simp
qed

subsection \<open>Sampling and fitting\<close>

lemma arange_index:
  fixes k n s :: nat
  assumes "0 < s"
  shows "k < (n + s - 1) div s \<longleftrightarrow> k * s < n"
proof -
  have "k < (n + s - 1) div s \<longleftrightarrow> Suc k \<le> (n + s - 1) div s" by auto
  also have "\<dots> \<longleftrightarrow> Suc k * s \<le> n + s - 1"
    using assms by (simp add: less_eq_div_iff_mult_less_eq)
  also have "\<dots> \<longleftrightarrow> k * s < n"
    using assms by auto
  finally show ?thesis .
qed

lemma arange_positive:
  assumes "0 < step"
  shows "arange n step = Inr (map (\<lambda>k. k * nat step) [0..<(n + nat step - 1) div nat step])"
  using assms by (simp add: arange_def)

lemma arange_members:
  fixes t n s :: nat
  assumes "0 < s"
  shows "t \<in> set (map (\<lambda>k. k * s) [0..<(n + s - 1) div s]) \<longleftrightarrow> t < n \<and> s dvd t"
proof
  assume "t \<in> set (map (\<lambda>k. k * s) [0..<(n + s - 1) div s])"
  then obtain k where "k < (n + s - 1) div s" "t = k * s" by auto
  then show "t < n \<and> s dvd t" using arange_index [OF assms] by simp
next
  assume h: "t < n \<and> s dvd t"
  then obtain k where k: "t = k * s" by (auto simp: dvd_def mult.commute)
  then have "k < (n + s - 1) div s" using h arange_index [OF assms, of k n] by simp
  then show "t \<in> set (map (\<lambda>k. k * s) [0..<(n + s - 1) div s])" using k by auto
qed

lemma arange_single:
  fixes n s :: nat
  assumes "0 < s" "0 < n" "n \<le> s"
  shows "map (\<lambda>k. k * s) [0..<(n + s - 1) div s] = [0::nat]"
proof -
  have "(n + s - 1) div s = 1"
  proof -
    have "s \<le> n + s - 1" "n + s - 1 < 2 * s" using assms by auto
    then show ?thesis
      by (metis One_nat_def assms(1) div_less_iff_less_mult less_eq_div_iff_mult_less_eq
          mult.commute mult_1 nat_less_le not_less_eq_eq one_add_one plus_1_eq_Suc le_antisym Suc_leI)
  qed
  then show ?thesis by simp
qed

lemma fit_frames_all:
  assumes "\<forall>t \<in> set ts. t < length stack \<and> lstsq ev A (concat (stack ! t)) = Inr (coef t)"
  shows "fit_frames ev A stack ts = Inr (map coef ts)"
  using assms by (induction ts) simp_all

lemma py_max_Max:
  assumes "xs \<noteq> []"
  shows "py_max xs = Inr (Max (set xs))"
proof (cases xs)
  case Nil
  then show ?thesis using assms by simp
next
  case (Cons x rest)
  have "Max (set (x # rest)) = fold max rest x"
    by (rule Max.set_eq_fold)
  then show ?thesis
    unfolding Cons py_max_def by simp
qed

subsection \<open>The scattered-light verdict\<close>

text \<open>
  C4 (amended). With debug mode off, a positive stride and a non-empty residual stack on
  whose sampled frames the least-squares solver returns coefficients: the sampled indices
  are, in increasing order and without repetition, exactly the multiples of the stride
  below the stack length (only index 0 when the stride is at least the stack length); each
  sampled frame is fitted against the design matrix of rows \<open>(x, y, 1)\<close>; and the detector
  returns true if and only if \<open>max |c| > 2.5\<close> or (\<open>max |a| > 0.02\<close> and
  \<open>max |b| > 0.02\<close>), the maxima over the sampled frames.
\<close>

theorem scattered_light_verdict:
  assumes "\<not> debug st" and "0 < scattered_light_frequency st" and "stack \<noteq> []"
    and "\<forall>t. t < length stack \<and> nat (scattered_light_frequency st) dvd t \<longrightarrow>
           lstsq ev (design_matrix (cutout_size st)) (concat (stack ! t)) = Inr (coef t)"
  shows
    "\<exists>time_steps.
        arange (length stack) (scattered_light_frequency st) = Inr time_steps \<and>
        sorted time_steps \<and> distinct time_steps \<and>
        set time_steps = {t. t < length stack \<and> nat (scattered_light_frequency st) dvd t} \<and>
        (int (length stack) \<le> scattered_light_frequency st \<longrightarrow> time_steps = [0]) \<and>
        fit_frames ev (design_matrix (cutout_size st)) stack time_steps = Inr (map coef time_steps) \<and>
        scattered_light ev st stack =
          Inr (Max ((\<lambda>t. \<bar>snd (snd (coef t))\<bar>) ` set time_steps) > 2.5 \<or>
               (Max ((\<lambda>t. \<bar>fst (coef t)\<bar>) ` set time_steps) > 0.02 \<and>
                Max ((\<lambda>t. \<bar>fst (snd (coef t))\<bar>) ` set time_steps) > 0.02))"
proof -
  define s where "s = nat (scattered_light_frequency st)"
  define n where "n = length stack"
  define ts where "ts = map (\<lambda>k. k * s) [0..<(n + s - 1) div s]"
  have s: "0 < s" using assms(2) by (simp add: s_def)
  have n: "0 < n" using assms(3) by (simp add: n_def)
  have ar: "arange (length stack) (scattered_light_frequency st) = Inr ts"
    using arange_positive [OF assms(2)] by (simp add: ts_def s_def n_def)
  have mem: "set ts = {t. t < n \<and> s dvd t}"
    using arange_members [OF s] unfolding ts_def by blast
  have srt: "sorted ts" "distinct ts"
    using s by (auto simp: ts_def sorted_map distinct_map inj_on_def intro!: sorted_wrt_mono_rel [of _ "(<)"])
  have single: "time_steps = [0]" if "int (length stack) \<le> scattered_light_frequency st" "time_steps = ts"
    for time_steps
  proof -
    have "n \<le> s" using that(1) by (simp add: s_def n_def)
    then show ?thesis using arange_single [OF s n] that(2) by (simp add: ts_def)
  qed
  have ne: "ts \<noteq> []"
  proof -
    have "0 \<in> set ts" using mem n by simp
    then show ?thesis by auto
  qed
  have fit: "fit_frames ev (design_matrix (cutout_size st)) stack ts = Inr (map coef ts)"
  proof (rule fit_frames_all)
    show "\<forall>t\<in>set ts. t < length stack \<and>
            lstsq ev (design_matrix (cutout_size st)) (concat (stack ! t)) = Inr (coef t)"
      using assms(4) mem by (simp add: s_def n_def)
  qed
  have mx: "py_max (map f (map coef ts)) = Inr (Max ((\<lambda>t. f (coef t)) ` set ts))" for f :: "real \<times> real \<times> real \<Rightarrow> real"
  proof -
    have "map f (map coef ts) \<noteq> []" using ne by simp
    from py_max_Max [OF this] show ?thesis by (simp add: image_image)
  qed
  have sl: "scattered_light ev st stack =
          Inr (Max ((\<lambda>t. \<bar>snd (snd (coef t))\<bar>) ` set ts) > 2.5 \<or>
               (Max ((\<lambda>t. \<bar>fst (coef t)\<bar>) ` set ts) > 0.02 \<and>
                Max ((\<lambda>t. \<bar>fst (snd (coef t))\<bar>) ` set ts) > 0.02))"
  proof -
    have m1: "py_max (map (\<lambda>(a, b, c). \<bar>a\<bar>) (map coef ts)) =
                Inr (Max ((\<lambda>t. \<bar>fst (coef t)\<bar>) ` set ts))"
      using mx [of "\<lambda>(a, b, c). \<bar>a\<bar>"] by (simp add: case_prod_unfold)
    have m2: "py_max (map (\<lambda>(a, b, c). \<bar>b\<bar>) (map coef ts)) =
                Inr (Max ((\<lambda>t. \<bar>fst (snd (coef t))\<bar>) ` set ts))"
      using mx [of "\<lambda>(a, b, c). \<bar>b\<bar>"] by (simp add: case_prod_unfold)
    have m3: "py_max (map (\<lambda>(a, b, c). \<bar>c\<bar>) (map coef ts)) =
                Inr (Max ((\<lambda>t. \<bar>snd (snd (coef t))\<bar>) ` set ts))"
      using mx [of "\<lambda>(a, b, c). \<bar>c\<bar>"] by (simp add: case_prod_unfold)
    show ?thesis
      unfolding scattered_light_def
      by (simp only: assms(1) if_False ar fit m1 m2 m3 sum.case)
  qed
  show ?thesis
    using ar srt mem single fit sl by (auto simp: s_def n_def)
qed

lemma demo_stack_fit:
  assumes "t < length demo_stack"
  shows "plane_fit (design_matrix 2) (concat (demo_stack ! t)) = Inr (0, 0, [1, 9, 9, 9, 9, 3] ! t)"
proof -
  have "demo_stack ! t = flat_frame ([1, 9, 9, 9, 9, 3] ! t)"
    using assms unfolding demo_stack_def by (simp only: length_map nth_map)
  then show ?thesis by (simp only: fit_flat)
qed

lemma demo_stack_take_fit:
  assumes "t < length (take 2 demo_stack)"
  shows "plane_fit (design_matrix 2) (concat (take 2 demo_stack ! t)) = Inr (0, 0, [1, 9, 9, 9, 9, 3] ! t)"
proof -
  have "t < 2" "t < length demo_stack" using assms by simp_all
  then have "take 2 demo_stack ! t = demo_stack ! t" by (simp only: nth_take)
  then show ?thesis using demo_stack_fit [OF \<open>t < length demo_stack\<close>] by (simp only:)
qed

lemma demo_state_detector:
  "\<not> debug demo_state" "scattered_light_frequency demo_state = 5" "cutout_size demo_state = 2"
  by (simp_all add: demo_state_def new_ensemble_def demo_args_def)

theorem scattered_light_verdict_witness:
  "\<not> debug demo_state \<and> 0 < scattered_light_frequency demo_state \<and> demo_stack \<noteq> [] \<and>
   arange (length demo_stack) (scattered_light_frequency demo_state) = Inr [0, 5] \<and>
   scattered_light (demo_env []) demo_state demo_stack = Inr True \<and>
   take 2 demo_stack \<noteq> [] \<and>
   arange (length (take 2 demo_stack)) (scattered_light_frequency demo_state) = Inr [0] \<and>
   scattered_light (demo_env []) demo_state (take 2 demo_stack) = Inr False"
proof -
  let ?coef = "\<lambda>t. (0::real, 0::real, [1, 9, 9, 9, 9, 3::real] ! t)"
  have h: "\<not> debug demo_state" "0 < scattered_light_frequency demo_state" "demo_stack \<noteq> []"
    "take 2 demo_stack \<noteq> []"
    by (simp_all add: demo_state_detector demo_stack_def)
  have fit6: "\<forall>t. t < length demo_stack \<and> nat (scattered_light_frequency demo_state) dvd t \<longrightarrow>
          lstsq (demo_env []) (design_matrix (cutout_size demo_state)) (concat (demo_stack ! t))
            = Inr (?coef t)"
    using demo_stack_fit by (simp add: demo_env_def demo_state_detector)
  have fit2: "\<forall>t. t < length (take 2 demo_stack) \<and> nat (scattered_light_frequency demo_state) dvd t \<longrightarrow>
          lstsq (demo_env []) (design_matrix (cutout_size demo_state)) (concat (take 2 demo_stack ! t))
            = Inr (?coef t)"
    using demo_stack_take_fit by (simp add: demo_env_def demo_state_detector)
  have a6: "arange (length demo_stack) (scattered_light_frequency demo_state) = Inr [0, 5]"
    by (simp add: arange_def demo_state_detector demo_stack_def numeral_2_eq_2 upt_rec)
  have a2: "arange (length (take 2 demo_stack)) (scattered_light_frequency demo_state) = Inr [0]"
    by (simp add: arange_def demo_state_detector demo_stack_def)
  from scattered_light_verdict [OF h(1,2,3) fit6] a6
  have s6: "scattered_light (demo_env []) demo_state demo_stack = Inr True"
    by auto
  from scattered_light_verdict [OF h(1,2,4) fit2] a2
  have s2: "scattered_light (demo_env []) demo_state (take 2 demo_stack) = Inr False"
    by auto
  show ?thesis using h a6 a2 s6 s2 by simp
qed

text \<open>
  The claim as stated fails on the empty stack: with debug mode off and the default stride
  5, which is at least the stack length 0, no index is sampled (not "exactly one sample,
  index 0"), and \<^verbatim>\<open>max\<close> of the empty coefficient column raises \<open>ValueError\<close>, so no
  verdict is returned.
\<close>

theorem scattered_light_empty_stack_counterexample:
  "\<not> debug demo_state \<and>
   int (length ([] :: real list list list)) \<le> scattered_light_frequency demo_state \<and>
   arange (length ([] :: real list list list)) (scattered_light_frequency demo_state) = Inr [] \<and>
   scattered_light (demo_env []) demo_state [] = Inl ValueError"
  by (simp add: demo_state_detector arange_def scattered_light_def py_max_def)

end
